theory Spec2Isabelle
  imports Main "HOL-Library.Multiset" "HOL-Library.Word" "HOL-Library.AList" "HOL-Library.Sublist"
begin

section \<open>Go values as the editor package sees them through reflection\<close>

text \<open>
  The editor functions of management/editor/elements.go receive the content value as
  an empty interface and read it with package reflect only. A field value is modelled by
  what those reads can observe:
  \<^item> \<open>VString s\<close>: a value of kind String;
  \<^item> \<open>VInt tn w\<close>: a value of a signed integer kind (int, int8 .. int64), as the int64
    that Value.Int returns, with the name \<open>tn\<close> of its type;
  \<^item> \<open>VStrings tn xs\<close>: a value of type []string, or of an array type with elements
    of type string, with the name \<open>tn\<close> of its type (slicing either in full gives a
    []string with the elements \<open>xs\<close>);
  \<^item> \<open>VOther tn\<close>: a value of any other type, named \<open>tn\<close>.
\<close>

datatype gvalue = VString string | VInt string "64 word" | VStrings string "string list" | VOther string

text \<open>
  A struct field as reflect.StructField describes it, together with its current value.
  \<open>PkgPath\<close> is empty exactly for an exported field. The struct tag is kept in its
  conventional form, already split into its key/value pairs, in the order they are
  written. Embedded structs (promoted fields) are not modelled: a struct is the list of
  its fields in declaration order.
\<close>

record field =
  FieldName :: string
  PkgPath :: string
  Tag :: "(string \<times> string) list"
  Val :: gvalue

text \<open>
  The argument \<open>p interface{}\<close>: the nil interface, a nil pointer to a struct type, or a
  pointer to a struct. (For the nil pointer the list gives the fields of the element type;
  their values are never read.) The editor is called with pointers to content structs;
  arguments of other dynamic types are not modelled.
\<close>

datatype post = NilInterface | NilPtr "field list" | Ptr "field list"

text \<open>
  A panic: the two explicit ones of tagNameFromStructField, carrying the field name that
  their message quotes, and any run-time panic raised by reflect or the Go runtime (a
  method called on a Value of the wrong kind, a failed type assertion, a nil dereference,
  an assignment to an entry of a nil map).
\<close>

datatype panic = NoStructField string | NoJsonTag string | RuntimePanic

text \<open>A reflect.Value: the zero Value, or a value with its read-only flag (set when the
  value was reached through an unexported field).\<close>

datatype rvalue = Invalid | Value bool gvalue

text \<open>Type.FieldByName on a struct type without embedded fields: the empty name is never
  found, otherwise the first field of that name is returned.\<close>

definition FieldByName :: "field list \<Rightarrow> string \<Rightarrow> field option" where
  "FieldByName fs name = (if name = [] then None else find (\<lambda>f. FieldName f = name) fs)"

text \<open>StructTag.Lookup: the value of the first pair with the key.\<close>

definition Lookup :: "(string \<times> string) list \<Rightarrow> string \<Rightarrow> string option" where
  "Lookup tag key = map_of tag key"

text \<open>reflect.TypeOf(post).Elem(): the nil interface has no type, and Elem is then called
  on a nil Type.\<close>

fun TypeOf_Elem :: "post \<Rightarrow> panic + field list" where
  "TypeOf_Elem NilInterface = Inl RuntimePanic"
| "TypeOf_Elem (NilPtr fs) = Inr fs"
| "TypeOf_Elem (Ptr fs) = Inr fs"

text \<open>reflect.Indirect(reflect.ValueOf(post)): the struct a non-nil pointer points to; the
  zero Value (None) for the nil interface and for a nil pointer.\<close>

fun Indirect_ValueOf :: "post \<Rightarrow> field list option" where
  "Indirect_ValueOf NilInterface = None"
| "Indirect_ValueOf (NilPtr fs) = None"
| "Indirect_ValueOf (Ptr fs) = Some fs"

text \<open>Value.FieldByName: panics on the zero Value; the zero Value when the struct has no
  such field.\<close>

definition Value_FieldByName :: "field list option \<Rightarrow> string \<Rightarrow> panic + rvalue" where
  "Value_FieldByName v name =
     (case v of
        None \<Rightarrow> Inl RuntimePanic
      | Some fs \<Rightarrow>
          (case FieldByName fs name of
             None \<Rightarrow> Inr Invalid
           | Some f \<Rightarrow> Inr (Value (PkgPath f \<noteq> []) (Val f))))"

text \<open>Value.String never panics: the string itself for kind String, and a description of
  the value otherwise.\<close>

fun Value_String :: "rvalue \<Rightarrow> string" where
  "Value_String Invalid = ''<invalid Value>''"
| "Value_String (Value ro (VString s)) = s"
| "Value_String (Value ro (VInt tn w)) = ''<'' @ tn @ '' Value>''"
| "Value_String (Value ro (VStrings tn xs)) = ''<'' @ tn @ '' Value>''"
| "Value_String (Value ro (VOther tn)) = ''<'' @ tn @ '' Value>''"

text \<open>Value.Int panics unless the kind is a signed integer kind.\<close>

fun Value_Int :: "rvalue \<Rightarrow> panic + 64 word" where
  "Value_Int (Value ro (VInt tn w)) = Inr w"
| "Value_Int v = Inl RuntimePanic"

text \<open>
  The chain \<open>v.Slice(0, v.Len()).Interface().([]string)\<close> of Checkbox and Tags.
  Len panics on the zero Value and on an integer; Slice panics on a kind other than
  slice, array and string; Interface panics on a value reached through an unexported
  field; the type assertion panics unless the dynamic type of the slice is []string,
  which it is for a []string and for an array of strings sliced in full (a string sliced
  in full is still a string, and a slice of a named slice type keeps that type).
\<close>

fun Value_Strings :: "rvalue \<Rightarrow> panic + string list" where
  "Value_Strings (Value ro (VStrings tn xs)) = (if ro then Inl RuntimePanic else Inr xs)"
| "Value_Strings v = Inl RuntimePanic"

section \<open>The library functions used on strings\<close>

text \<open>html.EscapeString replaces the five characters \<open><\<close>, \<open>>\<close>, \<open>&\<close>, the single quote
  and the double quote, in one pass.\<close>

definition escape_char :: "char \<Rightarrow> string" where
  \<open>escape_char c =
     (if c = CHR ''&'' then ''&amp;''
      else if c = CHR 0x27 then ''&#39;''
      else if c = CHR ''<'' then ''&lt;''
      else if c = CHR ''>'' then ''&gt;''
      else if c = CHR 0x22 then ''&#34;''
      else [c])\<close>

definition EscapeString :: "string \<Rightarrow> string" where
  "EscapeString s = concat (map escape_char s)"

text \<open>strings.Split with a one-byte separator (every call site passes a single space) and
  strings.Join.\<close>

fun Split :: "string \<Rightarrow> char \<Rightarrow> string list" where
  "Split [] sep = [[]]"
| "Split (c # cs) sep =
     (if c = sep then [] # Split cs sep
      else (case Split cs sep of [] \<Rightarrow> [[c]] | x # xs \<Rightarrow> (c # x) # xs))"

fun Join :: "string list \<Rightarrow> string \<Rightarrow> string" where
  "Join [] sep = []"
| "Join [x] sep = x"
| "Join (x # y # ys) sep = x @ sep @ Join (y # ys) sep"

text \<open>The verb \<open>%d\<close> of fmt.Sprintf: the decimal digits, after a minus sign for a negative
  number.\<close>

fun digits :: "nat \<Rightarrow> string" where
  "digits n =
     (if n < 10 then [''0123456789'' ! n]
      else digits (n div 10) @ [''0123456789'' ! (n mod 10)])"

declare digits.simps [simp del]

definition Sprintf_d :: "int \<Rightarrow> string" where
  "Sprintf_d i = (if i < 0 then ''-'' @ digits (nat (- i)) else digits (nat i))"

section \<open>Go maps\<close>

text \<open>
  A map[string]string is nil or holds entries with distinct keys. Reading a missing key
  (also from the nil map) gives the empty string; assigning to an entry of the nil map
  panics. A range loop visits the entries in an order that Go leaves unspecified and
  changes from one loop to the next: \<open>range_orders\<close> is the set of the orders a loop may
  take, every permutation of the entries.
\<close>

datatype gomap = NilMap | GoMap "(string \<times> string) list"

fun entries :: "gomap \<Rightarrow> (string \<times> string) list" where
  "entries NilMap = []"
| "entries (GoMap kvs) = kvs"

definition index :: "gomap \<Rightarrow> string \<Rightarrow> string" where
  "index m k = (case map_of (entries m) k of None \<Rightarrow> [] | Some v \<Rightarrow> v)"

fun assign :: "gomap \<Rightarrow> string \<Rightarrow> string \<Rightarrow> panic + gomap" where
  "assign NilMap k v = Inl RuntimePanic"
| "assign (GoMap kvs) k v = Inr (GoMap (AList.update k v kvs))"

text \<open>The rearrangements of a list: \<open>inserts x ys\<close> puts \<open>x\<close> at each position of
  \<open>ys\<close> in turn.\<close>

fun inserts :: "'a \<Rightarrow> 'a list \<Rightarrow> 'a list list" where
  "inserts x [] = [[x]]"
| "inserts x (y # ys) = (x # y # ys) # map ((#) y) (inserts x ys)"

fun perms :: "'a list \<Rightarrow> 'a list list" where
  "perms [] = [[]]"
| "perms (x # xs) = concat (map (inserts x) (perms xs))"

definition range_orders :: "gomap \<Rightarrow> (string \<times> string) list set" where
  "range_orders m = set (perms (entries m))"

section \<open>Field name and value resolution\<close>

definition tagNameFromStructField :: "string \<Rightarrow> post \<Rightarrow> panic + string" where
  "tagNameFromStructField name post =
     (if name = [] then Inr name
      else
        (case TypeOf_Elem post of
           Inl e \<Rightarrow> Inl e
         | Inr fs \<Rightarrow>
             (case FieldByName fs name of
                None \<Rightarrow> Inl (NoStructField name)
              | Some f \<Rightarrow>
                  (case Lookup (Tag f) ''json'' of
                     None \<Rightarrow> Inl (NoJsonTag name)
                   | Some tag \<Rightarrow> Inr tag))))"

text \<open>The index \<open>i\<close> is a Go int. It counts the entries of a slice or map held in memory,
  whose number is itself an int, so it never wraps; it is modelled as an integer.\<close>

definition tagNameFromStructFieldMulti :: "string \<Rightarrow> int \<Rightarrow> post \<Rightarrow> panic + string" where
  "tagNameFromStructFieldMulti name i post =
     (case tagNameFromStructField name post of
        Inl e \<Rightarrow> Inl e
      | Inr tag \<Rightarrow> Inr (tag @ ''.'' @ Sprintf_d i))"

definition valueFromStructField :: "string \<Rightarrow> post \<Rightarrow> panic + rvalue" where
  "valueFromStructField name post = Value_FieldByName (Indirect_ValueOf post) name"

section \<open>Elements and their markup\<close>

text \<open>
  The struct \<open>element\<close>. The buffer \<open>viewBuf\<close> is the text written to it so far; every
  element is built with a fresh, empty buffer. \<open>Attrs\<close> is a reference to a map: the
  renderers below only read it.
\<close>

record element =
  TagName :: string
  Attrs :: gomap
  Name :: string
  label :: string
  data :: string
  viewBuf :: string

text \<open>The struct literal evaluates the tag lookup before the value lookup.\<close>

definition newElement :: "string \<Rightarrow> string \<Rightarrow> string \<Rightarrow> post \<Rightarrow> gomap \<Rightarrow> panic + element" where
  "newElement tagName lbl fieldName p attrs =
     (case tagNameFromStructField fieldName p of
        Inl e \<Rightarrow> Inl e
      | Inr name \<Rightarrow>
          (case valueFromStructField fieldName p of
             Inl e \<Rightarrow> Inl e
           | Inr v \<Rightarrow>
               Inr \<lparr>TagName = tagName, Attrs = attrs, Name = name, label = lbl,
                    data = Value_String v, viewBuf = []\<rparr>))"

text \<open>What the loop \<open>for attr, value := range e.Attrs\<close> writes when it visits the
  entries in the order \<open>kvs\<close>.\<close>

definition attr_writes :: "(string \<times> string) list \<Rightarrow> string" where
  \<open>attr_writes kvs = concat (map (\<lambda>(attr, val). attr @ ''="'' @ val @ ''" '') kvs)\<close>

text \<open>Each renderer comes in two steps: the bytes in the buffer at the end when the loop
  over the attributes visits them in a given order, and the set of the results over all
  the orders the loop may take.\<close>

definition domElementSelfClose_in :: "(string \<times> string) list \<Rightarrow> element \<Rightarrow> string" where
  \<open>domElementSelfClose_in kvs e =
     viewBuf e @ ''<div class="input-field col s12">'' @
     (if label e \<noteq> [] then
        ''<label class="active" for="'' @ Join (Split (label e) (CHR '' '')) ''-'' @ ''">'' @
        label e @ ''</label>''
      else []) @
     ''<'' @ TagName e @ '' value="'' @
     EscapeString (data e) @ ''" '' @
     attr_writes kvs @
     '' name="'' @ Name e @ ''"'' @
     '' />'' @
     ''</div>''\<close>

definition domElementSelfClose :: "element \<Rightarrow> string set" where
  "domElementSelfClose e = (\<lambda>kvs. domElementSelfClose_in kvs e) ` range_orders (Attrs e)"

definition domElementCheckbox_in :: "(string \<times> string) list \<Rightarrow> element \<Rightarrow> string" where
  \<open>domElementCheckbox_in kvs e =
     viewBuf e @ ''<p class="col s6">'' @
     ''<'' @ TagName e @ '' '' @
     attr_writes kvs @
     '' name="'' @ Name e @ ''"'' @
     '' /> '' @
     (if label e \<noteq> [] then
        ''<label for="'' @ Join (Split (label e) (CHR '' '')) ''-'' @ ''">'' @
        label e @ ''</label>''
      else []) @
     ''</p>''\<close>

definition domElementCheckbox :: "element \<Rightarrow> string set" where
  "domElementCheckbox e = (\<lambda>kvs. domElementCheckbox_in kvs e) ` range_orders (Attrs e)"

definition domElement_in :: "(string \<times> string) list \<Rightarrow> element \<Rightarrow> string" where
  \<open>domElement_in kvs e =
     viewBuf e @ ''<div class="input-field col s12">'' @
     (if label e \<noteq> [] then
        ''<label class="active" for="'' @ Join (Split (label e) (CHR '' '')) ''-'' @ ''">'' @
        label e @ ''</label>''
      else []) @
     ''<'' @ TagName e @ '' '' @
     attr_writes kvs @
     '' name="'' @ Name e @ ''"'' @
     '' >'' @
     EscapeString (data e) @
     ''</'' @ TagName e @ ''>'' @
     ''</div>''\<close>

definition domElement :: "element \<Rightarrow> string set" where
  "domElement e = (\<lambda>kvs. domElement_in kvs e) ` range_orders (Attrs e)"

text \<open>The loop over the children renders each child into the child's own buffer, so each
  child takes an order of its own: \<open>choices\<close> picks one result per child.\<close>

fun choices :: "'a set list \<Rightarrow> 'a list set" where
  "choices [] = {[]}"
| "choices (A # As) = (\<Union>x\<in>A. (#) x ` choices As)"

definition domElementWithChildrenSelect_in ::
    "(string \<times> string) list \<Rightarrow> string list \<Rightarrow> element \<Rightarrow> string" where
  \<open>domElementWithChildrenSelect_in kvs cs e =
     viewBuf e @ ''<div class="input-field col s6">'' @
     ''<'' @ TagName e @ '' '' @
     attr_writes kvs @
     '' name="'' @ Name e @ ''"'' @
     '' >'' @
     concat cs @
     ''</'' @ TagName e @ ''>'' @
     (if label e \<noteq> [] then ''<label class="active">'' @ label e @ ''</label>'' else []) @
     ''</div>''\<close>

definition domElementWithChildrenSelect :: "element \<Rightarrow> element list \<Rightarrow> string set" where
  "domElementWithChildrenSelect e children =
     (\<Union>kvs\<in>range_orders (Attrs e).
        (\<lambda>cs. domElementWithChildrenSelect_in kvs cs e) ` choices (map domElement children))"

definition domElementWithChildrenCheckbox_in ::
    "(string \<times> string) list \<Rightarrow> string list \<Rightarrow> element \<Rightarrow> string" where
  \<open>domElementWithChildrenCheckbox_in kvs cs e =
     viewBuf e @ ''<'' @ TagName e @ '' '' @
     attr_writes kvs @
     '' >'' @
     (if label e \<noteq> [] then ''<label class="active">'' @ label e @ ''</label>'' else []) @
     concat cs @
     ''</'' @ TagName e @ ''><div class="clear padding">&nbsp;</div>''\<close>

definition domElementWithChildrenCheckbox :: "element \<Rightarrow> element list \<Rightarrow> string set" where
  "domElementWithChildrenCheckbox e children =
     (\<Union>kvs\<in>range_orders (Attrs e).
        (\<lambda>cs. domElementWithChildrenCheckbox_in kvs cs e) `
          choices (map domElementCheckbox children))"

section \<open>The text of the templates\<close>

text \<open>The raw string literals of File, Richtext and Tags, cut where the source splices a
  value in. A tab is written \<open>tabs 1\<close>.\<close>

definition tabs :: "nat \<Rightarrow> string" where
  "tabs n = replicate n (CHR 0x09)"

definition File_tmpl_0 :: string where
  \<open>File_tmpl_0 =
     ''<div class="file-input ''\<close>

definition File_tmpl_1 :: string where
  \<open>File_tmpl_1 =
     '' input-field col s12">\<newline>'' @
     tabs 3 @ ''<label class="active">''\<close>

definition File_tmpl_2 :: string where
  \<open>File_tmpl_2 =
     ''</label>\<newline>'' @
     tabs 3 @ ''<div class="file-field input-field">\<newline>'' @
     tabs 4 @ ''<div class="btn">\<newline>'' @
     tabs 5 @ ''<span>Upload</span>\<newline>'' @
     tabs 5 @ ''<input class="upload" type="file">\<newline>'' @
     tabs 4 @ ''</div>\<newline>'' @
     tabs 4 @ ''<div class="file-path-wrapper">\<newline>'' @
     tabs 5 @ ''<input class="file-path validate" placeholder="''\<close>

definition File_tmpl_3 :: string where
  \<open>File_tmpl_3 =
     ''" type="text">\<newline>'' @
     tabs 4 @ ''</div>\<newline>'' @
     tabs 3 @ ''</div>\<newline>'' @
     tabs 3 @ ''<div class="preview"><div class="img-clip"></div></div>'' @ tabs 3 @ ''\<newline>'' @
     tabs 3 @ ''<input class="store ''\<close>

definition File_tmpl_4 :: string where
  \<open>File_tmpl_4 =
     ''" type="hidden" name="''\<close>

definition File_tmpl_5 :: string where
  \<open>File_tmpl_5 =
     ''" value="''\<close>

definition File_tmpl_6 :: string where
  \<open>File_tmpl_6 =
     ''" />\<newline>'' @
     tabs 2 @ ''</div>''\<close>

definition File_script_0 :: string where
  \<open>File_script_0 =
     ''<script>\<newline>'' @
     tabs 3 @ ''$(function() {\<newline>'' @
     tabs 4 @ ''var $file = $('.file-input.''\<close>

definition File_script_1 :: string where
  \<open>File_script_1 =
     [CHR 0x27] @ ''),\<newline>'' @
     tabs 5 @ ''upload = $file.find('input.upload'),\<newline>'' @
     tabs 5 @ ''store = $file.find('input.store'),\<newline>'' @
     tabs 5 @ ''preview = $file.find('.preview'),\<newline>'' @
     tabs 5 @ ''clip = preview.find('.img-clip'),\<newline>'' @
     tabs 5 @ ''reset = document.createElement('div'),\<newline>'' @
     tabs 5 @ ''img = document.createElement('img'),\<newline>'' @
     tabs 5 @ ''uploadSrc = store.val();\<newline>'' @
     tabs 5 @ ''preview.hide();\<newline>'' @
     tabs 4 @ ''\<newline>'' @
     tabs 4 @ ''// when ''\<close>

definition File_script_2 :: string where
  \<open>File_script_2 =
     '' input changes (file is selected), remove\<newline>'' @
     tabs 4 @ ''// the 'name' and 'value' attrs from the hidden store input.\<newline>'' @
     tabs 4 @ ''// add the 'name' attr to ''\<close>

definition File_script_3 :: string where
  \<open>File_script_3 =
     '' input\<newline>'' @
     tabs 4 @ ''upload.on('change', function(e) {\<newline>'' @
     tabs 5 @ ''resetImage();\<newline>'' @
     tabs 4 @ ''});\<newline>'' @
     ''\<newline>'' @
     tabs 4 @ ''if (uploadSrc.length > 0) {\<newline>'' @
     tabs 5 @ ''$(img).attr('src', store.val());\<newline>'' @
     tabs 5 @ ''clip.append(img);\<newline>'' @
     tabs 5 @ ''preview.show();\<newline>'' @
     ''\<newline>'' @
     tabs 5 @ ''$(reset).addClass('reset ''\<close>

definition File_script_4 :: string where
  \<open>File_script_4 =
     '' btn waves-effect waves-light grey');\<newline>'' @
     tabs 5 @ ''$(reset).html('<i class="material-icons tiny">clear<i>');\<newline>'' @
     tabs 5 @ ''$(reset).on('click', function(e) {\<newline>'' @
     tabs 6 @ ''e.preventDefault();\<newline>'' @
     tabs 6 @ ''preview.animate({"opacity": 0.1}, 200, function() {\<newline>'' @
     tabs 7 @ ''preview.slideUp(250, function() {\<newline>'' @
     tabs 8 @ ''resetImage();\<newline>'' @
     tabs 7 @ ''});\<newline>'' @
     tabs 6 @ ''})\<newline>'' @
     tabs 6 @ ''\<newline>'' @
     tabs 5 @ ''});\<newline>'' @
     tabs 5 @ ''clip.append(reset);\<newline>'' @
     tabs 4 @ ''}\<newline>'' @
     ''\<newline>'' @
     tabs 4 @ ''function resetImage() {\<newline>'' @
     tabs 5 @ ''store.val('' @ [CHR 0x27, CHR 0x27] @ '');\<newline>'' @
     tabs 5 @ ''store.attr('name', '' @ [CHR 0x27, CHR 0x27] @ '');\<newline>'' @
     tabs 5 @ ''upload.attr('name', '' @ [CHR 0x27]\<close>

definition File_script_5 :: string where
  \<open>File_script_5 =
     [CHR 0x27] @ '');\<newline>'' @
     tabs 5 @ ''clip.empty();\<newline>'' @
     tabs 4 @ ''}\<newline>'' @
     tabs 3 @ ''});'' @ tabs 1 @ ''\<newline>'' @
     tabs 2 @ ''</script>''\<close>

definition Richtext_script_0 :: string where
  \<open>Richtext_script_0 =
     ''\<newline>'' @
     tabs 1 @ ''<script>\<newline>'' @
     tabs 2 @ ''$(function() { \<newline>'' @
     tabs 3 @ ''var _editor = $('.richtext.''\<close>

definition Richtext_script_1 :: string where
  \<open>Richtext_script_1 =
     [CHR 0x27] @ '');\<newline>'' @
     tabs 3 @ ''var hidden = $('.richtext-value.''\<close>

definition Richtext_script_2 :: string where
  \<open>Richtext_script_2 =
     [CHR 0x27] @ '');\<newline>'' @
     ''\<newline>'' @
     tabs 3 @ ''_editor.materialnote({\<newline>'' @
     tabs 4 @ ''height: 250,\<newline>'' @
     tabs 4 @ ''placeholder: '' @ [CHR 0x27]\<close>

definition Richtext_script_3 :: string where
  \<open>Richtext_script_3 =
     [CHR 0x27] @ '',\<newline>'' @
     tabs 4 @ ''toolbar: [\<newline>'' @
     tabs 5 @ ''['style', ['bold', 'italic', 'underline', 'clear']],\<newline>'' @
     tabs 5 @ ''['font', ['strikethrough', 'superscript', 'subscript']],\<newline>'' @
     tabs 5 @ ''['fontsize', ['fontsize']],\<newline>'' @
     tabs 5 @ ''['color', ['color']],\<newline>'' @
     tabs 5 @ ''['insert', ['link', 'picture', 'video', 'hr']],'' @ tabs 5 @ ''\<newline>'' @
     tabs 5 @ ''['para', ['ul', 'ol', 'paragraph']],\<newline>'' @
     tabs 5 @ ''['height', ['height']],\<newline>'' @
     tabs 5 @ ''['misc', ['codeview']]\<newline>'' @
     tabs 4 @ ''],\<newline>'' @
     tabs 4 @ ''// intercept file insertion, upload and insert img with new src\<newline>'' @
     tabs 4 @ ''onImageUpload: function(files) {\<newline>'' @
     tabs 5 @ ''var data = new FormData();\<newline>'' @
     tabs 5 @ ''data.append("file", files[0]);\<newline>'' @
     tabs 5 @ ''$.ajax({\<newline>'' @
     tabs 6 @ ''data: data,\<newline>'' @
     tabs 6 @ ''type: 'POST',\<newline>'' @
     tabs 6 @ ''url: '/admin/edit/upload',\<newline>'' @
     tabs 6 @ ''cache: false,\<newline>'' @
     tabs 6 @ ''contentType: false,\<newline>'' @
     tabs 6 @ ''processData: false,\<newline>'' @
     tabs 6 @ ''success: function(resp) {\<newline>'' @
     tabs 7 @ ''var img = document.createElement('img');\<newline>'' @
     tabs 7 @ ''img.setAttribute('src', resp.data[0].url);\<newline>'' @
     tabs 7 @ ''_editor.materialnote('insertNode', img);\<newline>'' @
     tabs 6 @ ''},\<newline>'' @
     tabs 6 @ ''error: function(xhr, status, err) {\<newline>'' @
     tabs 7 @ ''console.log(status, err);\<newline>'' @
     tabs 6 @ ''}\<newline>'' @
     tabs 5 @ ''})\<newline>'' @
     ''\<newline>'' @
     tabs 4 @ ''}\<newline>'' @
     tabs 3 @ ''});\<newline>'' @
     ''\<newline>'' @
     tabs 3 @ ''// inject content into editor\<newline>'' @
     tabs 3 @ ''if (hidden.val() !== "") {\<newline>'' @
     tabs 4 @ ''_editor.code(hidden.val());\<newline>'' @
     tabs 3 @ ''}\<newline>'' @
     ''\<newline>'' @
     tabs 3 @ ''// update hidden input with encoded value on different events\<newline>'' @
     tabs 3 @ ''_editor.on('materialnote.change', function(e, content, $editable) {\<newline>'' @
     tabs 4 @ ''hidden.val(replaceBadChars(content));'' @ tabs 3 @ ''\<newline>'' @
     tabs 3 @ ''});\<newline>'' @
     ''\<newline>'' @
     tabs 3 @ ''_editor.on('materialnote.paste', function(e) {\<newline>'' @
     tabs 4 @ ''hidden.val(replaceBadChars(_editor.code()));'' @ tabs 3 @ ''\<newline>'' @
     tabs 3 @ ''});\<newline>'' @
     ''\<newline>'' @
     tabs 3 @ ''// bit of a hack to stop the editor buttons from causing a refresh when clicked \<newline>'' @
     tabs 3 @ ''$('.note-toolbar').find('button, i, a').on('click', function(e) { e.preventDefault(); });\<newline>'' @
     tabs 2 @ ''});\<newline>'' @
     tabs 1 @ ''</script>''\<close>

definition Tags_html_0 :: string where
  \<open>Tags_html_0 =
     ''\<newline>'' @
     tabs 1 @ ''<div class="input-field col s12 tags ''\<close>

definition Tags_html_1 :: string where
  \<open>Tags_html_1 =
     ''">\<newline>'' @
     tabs 2 @ ''<label class="active">''\<close>

definition Tags_html_2 :: string where
  \<open>Tags_html_2 =
     ''</label>\<newline>'' @
     tabs 2 @ ''<div class="chips ''\<close>

definition Tags_html_3 :: string where
  \<open>Tags_html_3 =
     ''"></div>\<newline>'' @
     tabs 1\<close>

definition Tags_script_0 :: string where
  \<open>Tags_script_0 =
     ''\<newline>'' @
     tabs 1 @ ''<script>\<newline>'' @
     tabs 2 @ ''$(function() {\<newline>'' @
     tabs 3 @ ''var tags = $('.tags.''\<close>

definition Tags_script_1 :: string where
  \<open>Tags_script_1 =
     [CHR 0x27] @ '');\<newline>'' @
     tabs 3 @ ''$('.chips.''\<close>

definition Tags_script_2 :: string where
  \<open>Tags_script_2 =
     [CHR 0x27] @ '').material_chip({\<newline>'' @
     tabs 4 @ ''data: [''\<close>

definition Tags_script_3 :: string where
  \<open>Tags_script_3 =
     ''],\<newline>'' @
     tabs 4 @ ''placeholder: 'Type and press "Enter" to add ''\<close>

definition Tags_script_4 :: string where
  \<open>Tags_script_4 =
     [CHR 0x27] @ ''\<newline>'' @
     tabs 3 @ ''});'' @ tabs 2 @ ''\<newline>'' @
     ''\<newline>'' @
     tabs 3 @ ''// handle events specific to tags\<newline>'' @
     tabs 3 @ ''var chips = tags.find('.chips');\<newline>'' @
     tabs 3 @ ''\<newline>'' @
     tabs 3 @ ''chips.on('chip.add', function(e, chip) {\<newline>'' @
     tabs 4 @ ''var input = $('<input>');\<newline>'' @
     tabs 4 @ ''input.attr({\<newline>'' @
     tabs 5 @ ''class: 'tag-'+chip.tag,\<newline>'' @
     tabs 5 @ ''name: '' @ [CHR 0x27]\<close>

definition Tags_script_5 :: string where
  \<open>Tags_script_5 =
     ''.'+tags.find('input[type=hidden]').length-1,\<newline>'' @
     tabs 5 @ ''value: chip.tag,\<newline>'' @
     tabs 5 @ ''type: 'hidden'' @ [CHR 0x27] @ ''\<newline>'' @
     tabs 4 @ ''});\<newline>'' @
     tabs 4 @ ''\<newline>'' @
     tabs 4 @ ''tags.append(input);\<newline>'' @
     tabs 3 @ ''});\<newline>'' @
     ''\<newline>'' @
     tabs 3 @ ''chips.on('chip.delete', function(e, chip) {\<newline>'' @
     tabs 4 @ ''var sel = '.tag-'+chip.tag;\<newline>'' @
     tabs 4 @ ''console.log(sel);\<newline>'' @
     tabs 4 @ ''console.log(chips.parent().find(sel));'' @ tabs 4 @ ''\<newline>'' @
     tabs 4 @ ''chips.parent().find(sel).remove();\<newline>'' @
     tabs 3 @ ''});\<newline>'' @
     tabs 2 @ ''});\<newline>'' @
     tabs 1 @ ''</script>\<newline>'' @
     tabs 1\<close>


section \<open>The rendering calls\<close>

text \<open>
  A call returns the set of the results it may have: a panic, or the bytes returned
  together with the caller's attribute map as the call leaves it (the map is passed by
  reference, and Richtext, Select and Checkbox assign to it). The map at a panic is not
  part of a result here: the section on the memory gives it.
\<close>

type_synonym result = "panic + string \<times> gomap"

definition Input :: "string \<Rightarrow> post \<Rightarrow> gomap \<Rightarrow> result set" where
  "Input fieldName p attrs =
     (case newElement ''input'' (index attrs ''label'') fieldName p attrs of
        Inl e \<Rightarrow> {Inl e}
      | Inr e \<Rightarrow> (\<lambda>out. Inr (out, attrs)) ` domElementSelfClose e)"

definition Textarea :: "string \<Rightarrow> post \<Rightarrow> gomap \<Rightarrow> result set" where
  "Textarea fieldName p attrs =
     (case newElement ''textarea'' (index attrs ''label'') fieldName p attrs of
        Inl e \<Rightarrow> {Inl e}
      | Inr e \<Rightarrow> (\<lambda>out. Inr (out, attrs)) ` domElement e)"

definition Timestamp :: "string \<Rightarrow> post \<Rightarrow> gomap \<Rightarrow> result set" where
  "Timestamp fieldName p attrs =
     (case valueFromStructField fieldName p of
        Inl e \<Rightarrow> {Inl e}
      | Inr val \<Rightarrow>
          (case Value_Int val of
             Inl e \<Rightarrow> {Inl e}
           | Inr n \<Rightarrow>
               (case tagNameFromStructField fieldName p of
                  Inl e \<Rightarrow> {Inl e}
                | Inr name \<Rightarrow>
                    (\<lambda>out. Inr (out, attrs)) `
                      domElementSelfClose
                        \<lparr>TagName = ''input'', Attrs = attrs, Name = name,
                         label = index attrs ''label'',
                         data = (if n = 0 then [] else Sprintf_d (sint n)),
                         viewBuf = []\<rparr>)))"

definition File :: "string \<Rightarrow> post \<Rightarrow> gomap \<Rightarrow> result set" where
  "File fieldName p attrs =
     (case tagNameFromStructField fieldName p of
        Inl e \<Rightarrow> {Inl e}
      | Inr name \<Rightarrow>
          (case valueFromStructField fieldName p of
             Inl e \<Rightarrow> {Inl e}
           | Inr v \<Rightarrow>
               {Inr ((File_tmpl_0 @ name @ File_tmpl_1 @ index attrs ''label'' @ File_tmpl_2 @
                      index attrs ''label'' @ File_tmpl_3 @ name @ File_tmpl_4 @ name @
                      File_tmpl_5 @ Value_String v @ File_tmpl_6) @
                     (File_script_0 @ name @ File_script_1 @ name @ File_script_2 @ name @
                      File_script_3 @ name @ File_script_4 @ name @ File_script_5),
                     attrs)}))"

definition Richtext :: "string \<Rightarrow> post \<Rightarrow> gomap \<Rightarrow> result set" where
  \<open>Richtext fieldName p attrs =
     (let iso = ''<div class="iso-texteditor input-field col s12"><label>'' @
                index attrs ''label'' @ ''</label>'';
          isoClose = ''</div>''
      in
      case assign attrs ''class'' (''richtext '' @ fieldName) of
        Inl e \<Rightarrow> {Inl e}
      | Inr attrs1 \<Rightarrow>
          (case assign attrs1 ''id'' (''richtext-'' @ fieldName) of
             Inl e \<Rightarrow> {Inl e}
           | Inr attrs2 \<Rightarrow>
               (case valueFromStructField fieldName p of
                  Inl e \<Rightarrow> {Inl e}
                | Inr v \<Rightarrow>
                    (case tagNameFromStructField fieldName p of
                       Inl e \<Rightarrow> {Inl e}
                     | Inr name \<Rightarrow>
                         (\<lambda>d. Inr (iso @ d @
                                 (''<input type="hidden" name="'' @ name @
                                  ''" class="richtext-value '' @ fieldName @
                                  ''" value="'' @ EscapeString (Value_String v) @ ''"/>'') @
                                 isoClose @
                                 (Richtext_script_0 @ fieldName @ Richtext_script_1 @
                                  fieldName @ Richtext_script_2 @
                                  index attrs2 ''placeholder'' @ Richtext_script_3),
                                 attrs2)) `
                           domElement
                             \<lparr>TagName = ''div'', Attrs = attrs2, Name = [], label = [],
                              data = [], viewBuf = []\<rparr>))))\<close>

text \<open>The elements of Select: the call to action, the reset, and one option for an entry
  \<open>(k, v)\<close> of the options.\<close>

definition Select_cta :: element where
  "Select_cta =
     \<lparr>TagName = ''option'', Attrs = GoMap [(''disabled'', ''true''), (''selected'', ''true'')],
      Name = [], label = [], data = ''Select an option...'', viewBuf = []\<rparr>"

definition Select_reset :: element where
  "Select_reset =
     \<lparr>TagName = ''option'', Attrs = GoMap [(''value'', [])],
      Name = [], label = [], data = ''None'', viewBuf = []\<rparr>"

definition Select_opt :: "string \<Rightarrow> string \<times> string \<Rightarrow> element" where
  "Select_opt fieldVal kv =
     (case kv of (k, v) \<Rightarrow>
        \<lparr>TagName = ''option'',
         Attrs = GoMap (if k = fieldVal then AList.update ''selected'' ''true'' [(''value'', k)]
                        else [(''value'', k)]),
         Name = [], label = [], data = v, viewBuf = []\<rparr>)"

definition Select :: "string \<Rightarrow> post \<Rightarrow> gomap \<Rightarrow> gomap \<Rightarrow> result set" where
  "Select fieldName p attrs options =
     (case valueFromStructField fieldName p of
        Inl e \<Rightarrow> {Inl e}
      | Inr fv \<Rightarrow>
          (case assign attrs ''class'' ''browser-default'' of
             Inl e \<Rightarrow> {Inl e}
           | Inr attrs1 \<Rightarrow>
               (case newElement ''select'' (index attrs1 ''label'') fieldName p attrs1 of
                  Inl e \<Rightarrow> {Inl e}
                | Inr sel \<Rightarrow>
                    (\<Union>kvs\<in>range_orders options.
                       (\<lambda>out. Inr (out, attrs1)) `
                         domElementWithChildrenSelect sel
                           ([Select_cta, Select_reset] @ map (Select_opt (Value_String fv)) kvs)))))"

text \<open>The body of the loop of Checkbox for the entry \<open>(k, v)\<close>: the attributes of the
  input, with the inner loop over the checked values, and the element named by
  tagNameFromStructFieldMulti.\<close>

definition Checkbox_inputAttrs :: "string list \<Rightarrow> string \<times> string \<Rightarrow> gomap" where
  "Checkbox_inputAttrs checked kv =
     (case kv of (k, v) \<Rightarrow>
        GoMap (fold (\<lambda>x m. if k = x then AList.update ''checked'' ''checked'' m else m) checked
                 [(''type'', ''checkbox''), (''value'', k),
                  (''id'', Join (Split v (CHR '' '')) ''-'')]))"

fun Checkbox_loop ::
    "string \<Rightarrow> post \<Rightarrow> string list \<Rightarrow> (string \<times> string) list \<Rightarrow> int \<Rightarrow> element list \<Rightarrow>
     panic + element list" where
  "Checkbox_loop fieldName p checked [] i opts = Inr opts"
| "Checkbox_loop fieldName p checked (kv # kvs) i opts =
     (case tagNameFromStructFieldMulti fieldName i p of
        Inl e \<Rightarrow> Inl e
      | Inr name \<Rightarrow>
          Checkbox_loop fieldName p checked kvs (i + 1)
            (opts @ [\<lparr>TagName = ''input'', Attrs = Checkbox_inputAttrs checked kv,
                      Name = name, label = snd kv, data = [], viewBuf = []\<rparr>]))"

definition Checkbox :: "string \<Rightarrow> post \<Rightarrow> gomap \<Rightarrow> gomap \<Rightarrow> result set" where
  "Checkbox fieldName p attrs options =
     (case assign attrs ''class'' ''input-field col s12'' of
        Inl e \<Rightarrow> {Inl e}
      | Inr attrs1 \<Rightarrow>
          (case newElement ''div'' (index attrs1 ''label'') [] p attrs1 of
             Inl e \<Rightarrow> {Inl e}
           | Inr wrapper \<Rightarrow>
               (case valueFromStructField fieldName p of
                  Inl e \<Rightarrow> {Inl e}
                | Inr checkedVals \<Rightarrow>
                    (case Value_Strings checkedVals of
                       Inl e \<Rightarrow> {Inl e}
                     | Inr checked \<Rightarrow>
                         (\<Union>kvs\<in>range_orders options.
                            (case Checkbox_loop fieldName p checked kvs 0 [] of
                               Inl e \<Rightarrow> {Inl e}
                             | Inr opts \<Rightarrow>
                                 (\<lambda>out. Inr (out, attrs1)) `
                                   domElementWithChildrenCheckbox wrapper opts))))))"

text \<open>The loop of Tags over the saved tags: it extends the markup and the list of the
  initial chips.\<close>

fun Tags_loop ::
    "string \<Rightarrow> post \<Rightarrow> string list \<Rightarrow> int \<Rightarrow> string \<Rightarrow> string list \<Rightarrow>
     panic + string \<times> string list" where
  "Tags_loop fieldName p [] i html initial = Inr (html, initial)"
| \<open>Tags_loop fieldName p (tag # tags) i html initial =
     (case tagNameFromStructFieldMulti fieldName i p of
        Inl e \<Rightarrow> Inl e
      | Inr tagName \<Rightarrow>
          Tags_loop fieldName p tags (i + 1)
            (html @ ''<input type="hidden" class="tag-'' @ tag @ ''" name='' @ tagName @
               '' value="'' @ tag @ ''"/>'')
            (initial @ [''{tag: '' @ tag @ ''}'']))\<close>

definition Tags :: "string \<Rightarrow> post \<Rightarrow> gomap \<Rightarrow> result set" where
  "Tags fieldName p attrs =
     (case tagNameFromStructField fieldName p of
        Inl e \<Rightarrow> {Inl e}
      | Inr name \<Rightarrow>
          (case valueFromStructField fieldName p of
             Inl e \<Rightarrow> {Inl e}
           | Inr values \<Rightarrow>
               (case Value_Strings values of
                  Inl e \<Rightarrow> {Inl e}
                | Inr tags \<Rightarrow>
                    (case Tags_loop fieldName p tags 0
                            (Tags_html_0 @ name @ Tags_html_1 @ index attrs ''label'' @
                             Tags_html_2 @ name @ Tags_html_3) [] of
                       Inl e \<Rightarrow> {Inl e}
                     | Inr (html, initial) \<Rightarrow>
                         {Inr ((html @ ''</div>'') @
                               (Tags_script_0 @ name @ Tags_script_1 @ name @ Tags_script_2 @
                                Join initial '','' @ Tags_script_3 @ name @ Tags_script_4 @
                                name @ Tags_script_5),
                               attrs)}))))"

section \<open>The calls as steps on the memory\<close>

text \<open>
  What a call can reach in memory is the struct behind the pointer \<open>p\<close> and the maps
  behind \<open>attrs\<close> and \<open>options\<close>; the package declares no variable of its own. The
  memory holds the structs and the maps at their addresses. An argument is a reference:
  for \<open>p\<close> the nil interface, a nil pointer or the address of a struct, for a map nil
  (None) or the address of the map. Two arguments with the same address are the same
  object.

  The maps and the buffers that a call allocates itself (the attributes of an option or
  of a checkbox input, the buffer of an element) are held by its locals only and cannot
  be reached once the call is over; they stay values, as in the sections above.
\<close>

record memory =
  heap_structs :: "nat \<Rightarrow> field list"
  heap_maps :: "nat \<Rightarrow> (string \<times> string) list"

datatype postref = NilInterfaceRef | NilPtrRef "field list" | PtrRef nat

type_synonym mapref = "nat option"

definition deref_post :: "memory \<Rightarrow> postref \<Rightarrow> post" where
  "deref_post s p =
     (case p of
        NilInterfaceRef \<Rightarrow> NilInterface
      | NilPtrRef fs \<Rightarrow> NilPtr fs
      | PtrRef a \<Rightarrow> Ptr (heap_structs s a))"

definition deref_map :: "memory \<Rightarrow> mapref \<Rightarrow> gomap" where
  "deref_map s r = (case r of None \<Rightarrow> NilMap | Some a \<Rightarrow> GoMap (heap_maps s a))"

text \<open>
  A step takes the memory and gives its outcomes: a panic or a value, each with the
  memory as the step leaves it. A panic ends the call where it is raised, with the
  memory as it is then: \<open>then_step\<close> runs the rest only after a value.
\<close>

type_synonym 'a step = "memory \<Rightarrow> ((panic + 'a) \<times> memory) set"

definition return_step :: "'a \<Rightarrow> 'a step" where
  "return_step x s = {(Inr x, s)}"

definition then_step :: "'a step \<Rightarrow> ('a \<Rightarrow> 'b step) \<Rightarrow> 'b step" where
  "then_step m f s =
     (\<Union>(r, s')\<in>m s. case r of Inl e \<Rightarrow> {(Inl e, s')} | Inr x \<Rightarrow> f x s')"

text \<open>The steps that read: a computation on values already read, a reflect lookup through
  \<open>p\<close>, the entries of a map as they are now, the entry \<open>m[k]\<close>, and a range loop over
  a map.\<close>

definition pure_step :: "panic + 'a \<Rightarrow> 'a step" where
  "pure_step r s = {(r, s)}"

definition reading :: "(post \<Rightarrow> panic + 'a) \<Rightarrow> postref \<Rightarrow> 'a step" where
  "reading f p s = {(f (deref_post s p), s)}"

definition load_step :: "mapref \<Rightarrow> gomap step" where
  "load_step r s = {(Inr (deref_map s r), s)}"

definition index_step :: "mapref \<Rightarrow> string \<Rightarrow> string step" where
  "index_step r k s = {(Inr (index (deref_map s r) k), s)}"

definition range_step :: "mapref \<Rightarrow> (string \<times> string) list step" where
  "range_step r s = (\<lambda>kvs. (Inr kvs, s)) ` range_orders (deref_map s r)"

text \<open>The one step that writes: the assignment \<open>m[k] = v\<close>, which panics on the nil map
  and otherwise replaces the map at the address of \<open>m\<close>.\<close>

definition set_entry :: "nat \<Rightarrow> string \<Rightarrow> string \<Rightarrow> memory \<Rightarrow> memory" where
  "set_entry a k v s = s\<lparr>heap_maps := (heap_maps s)(a := AList.update k v (heap_maps s a))\<rparr>"

definition assign_step :: "mapref \<Rightarrow> string \<Rightarrow> string \<Rightarrow> unit step" where
  "assign_step r k v s =
     (case r of
        None \<Rightarrow> {(Inl RuntimePanic, s)}
      | Some a \<Rightarrow> {(Inr (), set_entry a k v s)})"

text \<open>An element holds the caller's map by reference (\<open>Attrs: attrs\<close>), and the loop over
  \<open>e.Attrs\<close> reads the map when the element is rendered: \<open>render_step\<close> takes the
  entries from the memory at that moment.\<close>

definition render_step :: "(element \<Rightarrow> string set) \<Rightarrow> element \<Rightarrow> mapref \<Rightarrow> string step" where
  "render_step render e r s =
     (\<lambda>out. (Inr out, s)) ` render (e\<lparr>Attrs := deref_map s r\<rparr>)"

definition newElement_step ::
    "string \<Rightarrow> string \<Rightarrow> string \<Rightarrow> postref \<Rightarrow> mapref \<Rightarrow> element step" where
  "newElement_step tagName lbl fieldName p attrs =
     then_step (load_step attrs) (\<lambda>a.
     then_step (reading (tagNameFromStructField fieldName) p) (\<lambda>name.
     then_step (reading (valueFromStructField fieldName) p) (\<lambda>v.
     return_step \<lparr>TagName = tagName, Attrs = a, Name = name, label = lbl,
                  data = Value_String v, viewBuf = []\<rparr>)))"

text \<open>The eight calls, statement by statement.\<close>

definition Input_mem :: "string \<Rightarrow> postref \<Rightarrow> mapref \<Rightarrow> string step" where
  "Input_mem fieldName p attrs =
     then_step (index_step attrs ''label'') (\<lambda>lbl.
     then_step (newElement_step ''input'' lbl fieldName p attrs) (\<lambda>e.
     render_step domElementSelfClose e attrs))"

definition Textarea_mem :: "string \<Rightarrow> postref \<Rightarrow> mapref \<Rightarrow> string step" where
  "Textarea_mem fieldName p attrs =
     then_step (index_step attrs ''label'') (\<lambda>lbl.
     then_step (newElement_step ''textarea'' lbl fieldName p attrs) (\<lambda>e.
     render_step domElement e attrs))"

definition Timestamp_mem :: "string \<Rightarrow> postref \<Rightarrow> mapref \<Rightarrow> string step" where
  "Timestamp_mem fieldName p attrs =
     then_step (reading (valueFromStructField fieldName) p) (\<lambda>val.
     then_step (pure_step (Value_Int val)) (\<lambda>n.
     then_step (load_step attrs) (\<lambda>a.
     then_step (reading (tagNameFromStructField fieldName) p) (\<lambda>name.
     then_step (index_step attrs ''label'') (\<lambda>lbl.
     render_step domElementSelfClose
       \<lparr>TagName = ''input'', Attrs = a, Name = name, label = lbl,
        data = (if n = 0 then [] else Sprintf_d (sint n)), viewBuf = []\<rparr> attrs)))))"

definition File_mem :: "string \<Rightarrow> postref \<Rightarrow> mapref \<Rightarrow> string step" where
  "File_mem fieldName p attrs =
     then_step (reading (tagNameFromStructField fieldName) p) (\<lambda>name.
     then_step (index_step attrs ''label'') (\<lambda>lbl.
     then_step (index_step attrs ''label'') (\<lambda>lbl'.
     then_step (reading (valueFromStructField fieldName) p) (\<lambda>v.
     return_step
       ((File_tmpl_0 @ name @ File_tmpl_1 @ lbl @ File_tmpl_2 @ lbl' @ File_tmpl_3 @ name @
         File_tmpl_4 @ name @ File_tmpl_5 @ Value_String v @ File_tmpl_6) @
        (File_script_0 @ name @ File_script_1 @ name @ File_script_2 @ name @
         File_script_3 @ name @ File_script_4 @ name @ File_script_5))))))"

definition Richtext_mem :: "string \<Rightarrow> postref \<Rightarrow> mapref \<Rightarrow> string step" where
  \<open>Richtext_mem fieldName p attrs =
     then_step (index_step attrs ''label'') (\<lambda>lbl.
     then_step (assign_step attrs ''class'' (''richtext '' @ fieldName)) (\<lambda>_.
     then_step (assign_step attrs ''id'' (''richtext-'' @ fieldName)) (\<lambda>_.
     then_step (load_step attrs) (\<lambda>a.
     then_step (reading (valueFromStructField fieldName) p) (\<lambda>v.
     then_step (reading (tagNameFromStructField fieldName) p) (\<lambda>name.
     then_step (render_step domElement
                  \<lparr>TagName = ''div'', Attrs = a, Name = [], label = [], data = [],
                   viewBuf = []\<rparr> attrs) (\<lambda>d.
     then_step (index_step attrs ''placeholder'') (\<lambda>placeholder.
     return_step
       ((''<div class="iso-texteditor input-field col s12"><label>'' @ lbl @ ''</label>'') @
        d @
        (''<input type="hidden" name="'' @ name @ ''" class="richtext-value '' @ fieldName @
         ''" value="'' @ EscapeString (Value_String v) @ ''"/>'') @
        ''</div>'' @
        (Richtext_script_0 @ fieldName @ Richtext_script_1 @ fieldName @ Richtext_script_2 @
         placeholder @ Richtext_script_3))))))))))\<close>

definition Select_mem :: "string \<Rightarrow> postref \<Rightarrow> mapref \<Rightarrow> mapref \<Rightarrow> string step" where
  "Select_mem fieldName p attrs options =
     then_step (reading (valueFromStructField fieldName) p) (\<lambda>fv.
     then_step (assign_step attrs ''class'' ''browser-default'') (\<lambda>_.
     then_step (index_step attrs ''label'') (\<lambda>lbl.
     then_step (newElement_step ''select'' lbl fieldName p attrs) (\<lambda>sel.
     then_step (range_step options) (\<lambda>kvs.
     render_step
       (\<lambda>e. domElementWithChildrenSelect e
               ([Select_cta, Select_reset] @ map (Select_opt (Value_String fv)) kvs))
       sel attrs)))))"

definition Checkbox_mem :: "string \<Rightarrow> postref \<Rightarrow> mapref \<Rightarrow> mapref \<Rightarrow> string step" where
  "Checkbox_mem fieldName p attrs options =
     then_step (assign_step attrs ''class'' ''input-field col s12'') (\<lambda>_.
     then_step (index_step attrs ''label'') (\<lambda>lbl.
     then_step (newElement_step ''div'' lbl [] p attrs) (\<lambda>wrapper.
     then_step (reading (valueFromStructField fieldName) p) (\<lambda>checkedVals.
     then_step (pure_step (Value_Strings checkedVals)) (\<lambda>checked.
     then_step (range_step options) (\<lambda>kvs.
     then_step (reading (\<lambda>post. Checkbox_loop fieldName post checked kvs 0 []) p) (\<lambda>opts.
     render_step (\<lambda>e. domElementWithChildrenCheckbox e opts) wrapper attrs)))))))"

definition Tags_mem :: "string \<Rightarrow> postref \<Rightarrow> mapref \<Rightarrow> string step" where
  "Tags_mem fieldName p attrs =
     then_step (reading (tagNameFromStructField fieldName) p) (\<lambda>name.
     then_step (reading (valueFromStructField fieldName) p) (\<lambda>values.
     then_step (pure_step (Value_Strings values)) (\<lambda>tags.
     then_step (index_step attrs ''label'') (\<lambda>lbl.
     then_step (reading (\<lambda>post. Tags_loop fieldName post tags 0
                   (Tags_html_0 @ name @ Tags_html_1 @ lbl @ Tags_html_2 @ name @ Tags_html_3)
                   []) p) (\<lambda>(html, initial).
     return_step
       ((html @ ''</div>'') @
        (Tags_script_0 @ name @ Tags_script_1 @ name @ Tags_script_2 @
         Join initial '','' @ Tags_script_3 @ name @ Tags_script_4 @ name @
         Tags_script_5)))))))"

section \<open>Notions used in the statements\<close>

text \<open>The label that domElement and domElementSelfClose write before the tag, when the
  element has one.\<close>

definition active_label :: "string \<Rightarrow> string" where
  \<open>active_label l =
     (if l \<noteq> [] then
        ''<label class="active" for="'' @ Join (Split l (CHR '' '')) ''-'' @ ''">'' @ l @ ''</label>''
      else [])\<close>

text \<open>The number that a string of decimal digits denotes.\<close>

definition decimal_value :: "string \<Rightarrow> nat" where
  "decimal_value s = foldl (\<lambda>a c. 10 * a + (of_char c - 48)) 0 s"






text \<open>A call has an outcome, and every outcome, a return or a panic, leaves the memory
  \<open>s'\<close>.\<close>

definition ends_in :: "('a \<times> memory) set \<Rightarrow> memory \<Rightarrow> bool" where
  "ends_in R s' \<longleftrightarrow> R \<noteq> {} \<and> (\<forall>x\<in>R. snd x = s')"

text \<open>An outcome as a result of the section on the rendering calls: the bytes with the
  caller's map as the memory holds it at the end, or the panic.\<close>

definition forget :: "mapref \<Rightarrow> (panic + string) \<times> memory \<Rightarrow> result" where
  "forget r x =
     (case x of (res, s') \<Rightarrow>
        (case res of Inl e \<Rightarrow> Inl e | Inr out \<Rightarrow> Inr (out, deref_map s' r)))"

text \<open>A call is deterministic when it has one result at most.\<close>

definition deterministic :: "result set \<Rightarrow> bool" where
  "deterministic R \<longleftrightarrow> (\<forall>r1\<in>R. \<forall>r2\<in>R. r1 = r2)"

text \<open>A content struct for the examples: a title, a timestamp and a list of categories,
  each with its json tag.\<close>

definition example_fields :: "field list" where
  "example_fields =
     [\<lparr>FieldName = ''Title'', PkgPath = [], Tag = [(''json'', ''title'')],
       Val = VString ''a<b''\<rparr>,
      \<lparr>FieldName = ''Timestamp'', PkgPath = [], Tag = [(''json'', ''timestamp'')],
       Val = VInt ''int64'' 42\<rparr>,
      \<lparr>FieldName = ''Category'', PkgPath = [], Tag = [(''json'', ''category'')],
       Val = VStrings ''[]string'' [''a'', ''b'']\<rparr>]"

text \<open>A memory for the examples: the example struct at every address of a struct, and
  the empty map at every address of a map.\<close>

definition example_memory :: memory where
  "example_memory = \<lparr>heap_structs = (\<lambda>a. example_fields), heap_maps = (\<lambda>a. [])\<rparr>"

section \<open>The orders of a range loop\<close>

text \<open>The list \<open>perms xs\<close> holds exactly the rearrangements of \<open>xs\<close>, so a range loop
  may visit the entries of a map in any order, and in no other way.\<close>

lemma inserts_iff: "ys \<in> set (inserts x xs) \<longleftrightarrow> (\<exists>as bs. xs = as @ bs \<and> ys = as @ x # bs)"
proof (induction xs arbitrary: ys)
  case Nil
  then show ?case by auto
next
  case (Cons y xs)
  show ?case
  proof
    assume "ys \<in> set (inserts x (y # xs))"
    then consider "ys = x # y # xs" | zs where "zs \<in> set (inserts x xs)" "ys = y # zs"
      by auto
    then show "\<exists>as bs. y # xs = as @ bs \<and> ys = as @ x # bs"
    proof cases
      case 1
      then have "y # xs = [] @ (y # xs) \<and> ys = [] @ x # (y # xs)" by simp
      then show ?thesis by blast
    next
      case 2
      then obtain as bs where "xs = as @ bs" "zs = as @ x # bs"
        using Cons.IH by blast
      with 2 have "y # xs = (y # as) @ bs \<and> ys = (y # as) @ x # bs" by simp
      then show ?thesis by blast
    qed
  next
    assume "\<exists>as bs. y # xs = as @ bs \<and> ys = as @ x # bs"
    then obtain as bs where *: "y # xs = as @ bs" "ys = as @ x # bs" by blast
    show "ys \<in> set (inserts x (y # xs))"
    proof (cases as)
      case Nil
      with * have "ys = x # y # xs" by simp
      then show ?thesis by simp
    next
      case (Cons a as')
      with * have "a = y" "xs = as' @ bs" by simp_all
      then have "as' @ x # bs \<in> set (inserts x xs)" using Cons.IH by blast
      with * Cons \<open>a = y\<close> show ?thesis by simp
    qed
  qed
qed

lemma perms_Cons: "ys \<in> set (perms (x # xs)) \<longleftrightarrow> (\<exists>zs\<in>set (perms xs). ys \<in> set (inserts x zs))"
  by simp

lemma perms_iff: "ys \<in> set (perms xs) \<longleftrightarrow> mset ys = mset xs"
proof (induction xs arbitrary: ys)
  case Nil
  then show ?case by simp
next
  case (Cons x xs)
  show ?case
  proof
    assume "ys \<in> set (perms (x # xs))"
    then obtain zs where zs: "zs \<in> set (perms xs)" "ys \<in> set (inserts x zs)"
      unfolding perms_Cons by blast
    from zs(2) obtain as bs where ab: "zs = as @ bs" "ys = as @ x # bs"
      unfolding inserts_iff by blast
    from zs(1) have "mset zs = mset xs" using Cons.IH by blast
    with ab show "mset ys = mset (x # xs)" by simp
  next
    assume m: "mset ys = mset (x # xs)"
    then have "x \<in># mset ys" by simp
    then have "x \<in> set ys" by simp
    then obtain as bs where ys: "ys = as @ x # bs" by (meson split_list)
    with m have "mset (as @ bs) = mset xs" by simp
    then have "as @ bs \<in> set (perms xs)" using Cons.IH by blast
    moreover have "ys \<in> set (inserts x (as @ bs))" unfolding inserts_iff using ys by blast
    ultimately show "ys \<in> set (perms (x # xs))" unfolding perms_Cons by blast
  qed
qed

lemma range_orders_iff: "kvs \<in> range_orders m \<longleftrightarrow> mset kvs = mset (entries m)"
  by (simp add: range_orders_def perms_iff)

lemma entries_in_range_orders: "entries m \<in> range_orders m"
  by (simp add: range_orders_iff)

lemma range_orders_nonempty: "range_orders m \<noteq> {}"
  using entries_in_range_orders by blast


section \<open>Lookups that succeed\<close>

text \<open>With a pointer to a struct that has the field, and a json key in the tag of the
  field, both lookups return.\<close>

lemma FieldByName_name: "FieldByName fs name = Some f \<Longrightarrow> name \<noteq> [] \<and> FieldName f = name \<and> f \<in> set fs"
  by (auto simp: FieldByName_def find_Some_iff split: if_splits)

lemma tagName_found:
  "FieldByName fs name = Some f \<Longrightarrow> Lookup (Tag f) ''json'' = Some t \<Longrightarrow>
   tagNameFromStructField name (Ptr fs) = Inr t"
  using FieldByName_name [of fs name f] by (simp add: tagNameFromStructField_def)

lemma value_found:
  "FieldByName fs name = Some f \<Longrightarrow>
   valueFromStructField name (Ptr fs) = Inr (Value (PkgPath f \<noteq> []) (Val f))"
  by (simp add: valueFromStructField_def Value_FieldByName_def)

lemma newElement_found:
  "FieldByName fs name = Some f \<Longrightarrow> Lookup (Tag f) ''json'' = Some t \<Longrightarrow>
   newElement tg lbl name (Ptr fs) attrs =
     Inr \<lparr>TagName = tg, Attrs = attrs, Name = t, label = lbl,
          data = Value_String (Value (PkgPath f \<noteq> []) (Val f)), viewBuf = []\<rparr>"
  by (simp add: newElement_def tagName_found value_found)

lemma Input_found:
  "FieldByName fs name = Some f \<Longrightarrow> Lookup (Tag f) ''json'' = Some t \<Longrightarrow>
   Input name (Ptr fs) attrs =
     (\<lambda>kvs. Inr (domElementSelfClose_in kvs
        \<lparr>TagName = ''input'', Attrs = attrs, Name = t, label = index attrs ''label'',
         data = Value_String (Value (PkgPath f \<noteq> []) (Val f)), viewBuf = []\<rparr>, attrs)) `
     range_orders attrs"
  by (simp add: Input_def newElement_found domElementSelfClose_def image_image)

lemma Textarea_found:
  "FieldByName fs name = Some f \<Longrightarrow> Lookup (Tag f) ''json'' = Some t \<Longrightarrow>
   Textarea name (Ptr fs) attrs =
     (\<lambda>kvs. Inr (domElement_in kvs
        \<lparr>TagName = ''textarea'', Attrs = attrs, Name = t, label = index attrs ''label'',
         data = Value_String (Value (PkgPath f \<noteq> []) (Val f)), viewBuf = []\<rparr>, attrs)) `
     range_orders attrs"
  by (simp add: Textarea_def newElement_found domElement_def image_image)

lemma Timestamp_found:
  "FieldByName fs name = Some f \<Longrightarrow> Lookup (Tag f) ''json'' = Some t \<Longrightarrow> Val f = VInt tn n \<Longrightarrow>
   Timestamp name (Ptr fs) attrs =
     (\<lambda>kvs. Inr (domElementSelfClose_in kvs
        \<lparr>TagName = ''input'', Attrs = attrs, Name = t, label = index attrs ''label'',
         data = (if n = 0 then [] else Sprintf_d (sint n)), viewBuf = []\<rparr>, attrs)) `
     range_orders attrs"
  by (simp add: Timestamp_def tagName_found value_found domElementSelfClose_def image_image)

lemma File_found:
  "FieldByName fs name = Some f \<Longrightarrow> Lookup (Tag f) ''json'' = Some t \<Longrightarrow>
   File name (Ptr fs) attrs =
     {Inr ((File_tmpl_0 @ t @ File_tmpl_1 @ index attrs ''label'' @ File_tmpl_2 @
            index attrs ''label'' @ File_tmpl_3 @ t @ File_tmpl_4 @ t @
            File_tmpl_5 @ Value_String (Value (PkgPath f \<noteq> []) (Val f)) @ File_tmpl_6) @
           (File_script_0 @ t @ File_script_1 @ t @ File_script_2 @ t @
            File_script_3 @ t @ File_script_4 @ t @ File_script_5), attrs)}"
  by (simp add: File_def tagName_found value_found)

lemma Richtext_found:
  \<open>FieldByName fs name = Some f \<Longrightarrow> Lookup (Tag f) ''json'' = Some t \<Longrightarrow>
   Richtext name (Ptr fs) (GoMap al) =
     (\<lambda>kvs. Inr (''<div class="iso-texteditor input-field col s12"><label>'' @
                index (GoMap al) ''label'' @ ''</label>'' @
                domElement_in kvs \<lparr>TagName = ''div'',
                   Attrs = GoMap (AList.update ''id'' (''richtext-'' @ name)
                             (AList.update ''class'' (''richtext '' @ name) al)),
                   Name = [], label = [], data = [], viewBuf = []\<rparr> @
                (''<input type="hidden" name="'' @ t @
                 ''" class="richtext-value '' @ name @
                 ''" value="'' @ EscapeString (Value_String (Value (PkgPath f \<noteq> []) (Val f))) @ ''"/>'') @
                ''</div>'' @
                (Richtext_script_0 @ name @ Richtext_script_1 @ name @ Richtext_script_2 @
                 index (GoMap (AList.update ''id'' (''richtext-'' @ name)
                             (AList.update ''class'' (''richtext '' @ name) al))) ''placeholder'' @
                 Richtext_script_3),
                GoMap (AList.update ''id'' (''richtext-'' @ name)
                             (AList.update ''class'' (''richtext '' @ name) al)))) `
     range_orders (GoMap (AList.update ''id'' (''richtext-'' @ name)
                             (AList.update ''class'' (''richtext '' @ name) al)))\<close>
  by (simp add: Richtext_def tagName_found value_found domElement_def image_image)

lemma Select_found:
  "FieldByName fs name = Some f \<Longrightarrow> Lookup (Tag f) ''json'' = Some t \<Longrightarrow>
   Select name (Ptr fs) (GoMap al) options =
     (\<Union>kvs\<in>range_orders options.
        (\<lambda>out. Inr (out, GoMap (AList.update ''class'' ''browser-default'' al))) `
          domElementWithChildrenSelect
            \<lparr>TagName = ''select'', Attrs = GoMap (AList.update ''class'' ''browser-default'' al),
             Name = t, label = index (GoMap (AList.update ''class'' ''browser-default'' al)) ''label'',
             data = Value_String (Value (PkgPath f \<noteq> []) (Val f)), viewBuf = []\<rparr>
            ([Select_cta, Select_reset] @
             map (Select_opt (Value_String (Value (PkgPath f \<noteq> []) (Val f)))) kvs))"
  by (simp add: Select_def newElement_found value_found)

section \<open>The loops of Checkbox and Tags\<close>

lemma choices_iff: "cs \<in> choices As \<longleftrightarrow> list_all2 (\<in>) cs As"
proof (induction As arbitrary: cs)
  case Nil
  then show ?case by simp
next
  case (Cons A As)
  show ?case
  proof (cases cs)
    case Nil
    then show ?thesis by auto
  next
    case (Cons c cs')
    then show ?thesis using Cons.IH by auto
  qed
qed

lemma choices_map_iff: "cs \<in> choices (map F xs) \<longleftrightarrow> list_all2 (\<lambda>c x. c \<in> F x) cs xs"
  by (simp add: choices_iff list_all2_map2)

lemma Checkbox_loop_found:
  "tagNameFromStructField name p = Inr t \<Longrightarrow>
   Checkbox_loop name p checked kvs (int n) opts =
     Inr (opts @ map (\<lambda>(j, kv). \<lparr>TagName = ''input'', Attrs = Checkbox_inputAttrs checked kv,
                        Name = t @ ''.'' @ Sprintf_d (int j), label = snd kv, data = [],
                        viewBuf = []\<rparr>) (enumerate n kvs))"
proof (induction kvs arbitrary: n opts)
  case Nil
  then show ?case by simp
next
  case (Cons kv kvs)
  have "Checkbox_loop name p checked (kv # kvs) (int n) opts =
        Checkbox_loop name p checked kvs (int (Suc n))
          (opts @ [\<lparr>TagName = ''input'', Attrs = Checkbox_inputAttrs checked kv,
                    Name = t @ ''.'' @ Sprintf_d (int n), label = snd kv, data = [],
                    viewBuf = []\<rparr>])"
    using Cons.prems by (simp add: tagNameFromStructFieldMulti_def add.commute)
  then show ?case
    unfolding Cons.IH [OF Cons.prems] by simp
qed


lemma Tags_loop_found:
  \<open>tagNameFromStructField name p = Inr t \<Longrightarrow>
   Tags_loop name p tags (int n) html initial =
     Inr (html @ concat (map (\<lambda>(j, tag). ''<input type="hidden" class="tag-'' @ tag @ ''" name='' @
                               (t @ ''.'' @ Sprintf_d (int j)) @ '' value="'' @ tag @ ''"/>'')
                          (enumerate n tags)),
          initial @ map (\<lambda>tag. ''{tag: '' @ tag @ ''}'') tags)\<close>
proof (induction tags arbitrary: n html initial)
  case Nil
  then show ?case by simp
next
  case (Cons tag tags)
  have \<open>Tags_loop name p (tag # tags) (int n) html initial =
        Tags_loop name p tags (int (Suc n))
          (html @ ''<input type="hidden" class="tag-'' @ tag @ ''" name='' @
             (t @ ''.'' @ Sprintf_d (int n)) @ '' value="'' @ tag @ ''"/>'')
          (initial @ [''{tag: '' @ tag @ ''}''])\<close>
    using Cons.prems by (simp add: tagNameFromStructFieldMulti_def add.commute)
  then show ?case
    unfolding Cons.IH [OF Cons.prems] by simp
qed

section \<open>Decimal digits and escaping\<close>

lemma digit_cases: "d < 10 \<Longrightarrow> d = 0 \<or> d = 1 \<or> d = 2 \<or> d = 3 \<or> d = 4 \<or> d = 5 \<or> d = 6 \<or> d = 7 \<or> d = 8 \<or> d = (9::nat)"
  by arith

lemma digit_char:
  assumes "d < 10"
  shows "of_char (''0123456789'' ! d) = 48 + d"
  using digit_cases [OF assms] by (elim disjE) simp_all

lemma digit_mem: "d < 10 \<Longrightarrow> ''0123456789'' ! d \<in> set ''0123456789''"
  by (rule nth_mem) simp

lemma digits_chars: "set (digits n) \<subseteq> set ''0123456789''"
proof (induction n rule: digits.induct)
  case (1 n)
  show ?case
  proof (cases "n < 10")
    case True
    then have "digits n = [''0123456789'' ! n]" by (simp add: digits.simps)
    with digit_mem [OF True] show ?thesis by simp
  next
    case False
    then have "digits n = digits (n div 10) @ [''0123456789'' ! (n mod 10)]"
      by (subst digits.simps) simp
    moreover have "''0123456789'' ! (n mod 10) \<in> set ''0123456789''"
      by (rule digit_mem) simp
    ultimately show ?thesis using 1 [OF False] by simp
  qed
qed

lemma decimal_value_snoc: "decimal_value (s @ [c]) = 10 * decimal_value s + (of_char c - 48)"
  by (simp add: decimal_value_def)

lemma decimal_value_digits: "decimal_value (digits n) = n"
proof (induction n rule: digits.induct)
  case (1 n)
  show ?case
  proof (cases "n < 10")
    case True
    then have "digits n = [] @ [''0123456789'' ! n]" by (simp add: digits.simps)
    then have "decimal_value (digits n) = 10 * decimal_value [] + (of_char (''0123456789'' ! n) - 48)"
      by (simp only: decimal_value_snoc)
    with digit_char [OF True] show ?thesis by (simp add: decimal_value_def)
  next
    case False
    then have "digits n = digits (n div 10) @ [''0123456789'' ! (n mod 10)]"
      by (subst digits.simps) simp
    then have "decimal_value (digits n) =
        10 * decimal_value (digits (n div 10)) + (of_char (''0123456789'' ! (n mod 10)) - 48)"
      by (simp only: decimal_value_snoc)
    moreover have "of_char (''0123456789'' ! (n mod 10)) = 48 + n mod 10"
      by (rule digit_char) simp
    ultimately show ?thesis using 1 [OF False] by simp
  qed
qed

lemma digits_nonempty: "digits n \<noteq> []"
  by (subst digits.simps) simp

lemma escape_char_plain:
  \<open>c \<notin> {CHR ''&'', CHR 0x27, CHR ''<'', CHR ''>'', CHR 0x22} \<Longrightarrow> escape_char c = [c]\<close>
  by (simp add: escape_char_def)

lemma EscapeString_plain:
  \<open>set s \<inter> {CHR ''&'', CHR 0x27, CHR ''<'', CHR ''>'', CHR 0x22} = {} \<Longrightarrow> EscapeString s = s\<close>
proof (induction s)
  case Nil
  then show ?case by (simp add: EscapeString_def)
next
  case (Cons c s)
  then have "escape_char c = [c]" by (intro escape_char_plain) auto
  moreover from Cons have "EscapeString s = s" by auto
  ultimately show ?case by (simp add: EscapeString_def)
qed

lemma Sprintf_d_chars: "set (Sprintf_d i) \<subseteq> insert (CHR ''-'') (set ''0123456789'')"
proof (cases "i < 0")
  case True
  then have "set (Sprintf_d i) = insert (CHR ''-'') (set (digits (nat (- i))))"
    by (simp add: Sprintf_d_def)
  with digits_chars [of "nat (- i)"] show ?thesis by blast
next
  case False
  then have "set (Sprintf_d i) = set (digits (nat i))"
    by (simp add: Sprintf_d_def)
  with digits_chars [of "nat i"] show ?thesis by blast
qed

lemma EscapeString_Sprintf_d: "EscapeString (Sprintf_d i) = Sprintf_d i"
proof (rule EscapeString_plain)
  have \<open>insert (CHR ''-'') (set ''0123456789'') \<inter> {CHR ''&'', CHR 0x27, CHR ''<'', CHR ''>'', CHR 0x22} = {}\<close>
    by simp
  with Sprintf_d_chars [of i]
  show \<open>set (Sprintf_d i) \<inter> {CHR ''&'', CHR 0x27, CHR ''<'', CHR ''>'', CHR 0x22} = {}\<close>
    by blast
qed

lemma Sprintf_d_nonneg: "Sprintf_d (int n) = digits n"
  by (simp add: Sprintf_d_def)

section \<open>Small facts\<close>

lemma FieldByName_empty: "FieldByName fs [] = None"
  by (simp add: FieldByName_def)

lemma range_orders_small: "length (entries m) \<le> 1 \<Longrightarrow> range_orders m = {entries m}"
  by (cases "entries m"; cases "tl (entries m)") (auto simp: range_orders_def)

section \<open>The markup of the calls\<close>

text \<open>The renderers on an element with an empty buffer, and the calls on a struct that has
  the field with a json tag, written out.\<close>

lemma index_update_other:
  "k \<noteq> k' \<Longrightarrow> index (GoMap (AList.update k' v al)) k = index (GoMap al) k"
  by (simp add: index_def update_conv')

lemma domElementSelfClose_in_lit:
  \<open>domElementSelfClose_in kvs
     \<lparr>TagName = tg, Attrs = a, Name = nm, label = l, data = d, viewBuf = []\<rparr> =
   ''<div class="input-field col s12">'' @ active_label l @
   ''<'' @ tg @ '' value="'' @ EscapeString d @ ''" '' @ attr_writes kvs @
   '' name="'' @ nm @ ''" /></div>''\<close>
  by (simp add: domElementSelfClose_in_def active_label_def)

lemma domElement_in_lit:
  \<open>domElement_in kvs
     \<lparr>TagName = tg, Attrs = a, Name = nm, label = l, data = d, viewBuf = []\<rparr> =
   ''<div class="input-field col s12">'' @ active_label l @
   ''<'' @ tg @ '' '' @ attr_writes kvs @
   '' name="'' @ nm @ ''" >'' @ EscapeString d @ ''</'' @ tg @ ''></div>''\<close>
  by (simp add: domElement_in_def active_label_def)

lemma domElementCheckbox_in_lit:
  \<open>domElementCheckbox_in kvs
     \<lparr>TagName = tg, Attrs = a, Name = nm, label = l, data = d, viewBuf = []\<rparr> =
   ''<p class="col s6"><'' @ tg @ '' '' @ attr_writes kvs @
   '' name="'' @ nm @ ''" /> '' @
   (if l \<noteq> [] then
      ''<label for="'' @ Join (Split l (CHR '' '')) ''-'' @ ''">'' @ l @ ''</label>''
    else []) @
   ''</p>''\<close>
  by (simp add: domElementCheckbox_in_def)

lemma domElementWithChildrenSelect_in_lit:
  \<open>domElementWithChildrenSelect_in kvs cs
     \<lparr>TagName = tg, Attrs = a, Name = nm, label = l, data = d, viewBuf = []\<rparr> =
   ''<div class="input-field col s6"><'' @ tg @ '' '' @ attr_writes kvs @
   '' name="'' @ nm @ ''" >'' @ concat cs @ ''</'' @ tg @ ''>'' @
   (if l \<noteq> [] then ''<label class="active">'' @ l @ ''</label>'' else []) @ ''</div>''\<close>
  by (simp add: domElementWithChildrenSelect_in_def)

lemma domElementWithChildrenCheckbox_in_lit:
  \<open>domElementWithChildrenCheckbox_in kvs cs
     \<lparr>TagName = tg, Attrs = a, Name = nm, label = l, data = d, viewBuf = []\<rparr> =
   ''<'' @ tg @ '' '' @ attr_writes kvs @ '' >'' @
   (if l \<noteq> [] then ''<label class="active">'' @ l @ ''</label>'' else []) @
   concat cs @ ''</'' @ tg @ ''><div class="clear padding">&nbsp;</div>''\<close>
  by (simp add: domElementWithChildrenCheckbox_in_def)

lemma Input_shape:
  assumes "FieldByName fs name = Some f" and "Lookup (Tag f) ''json'' = Some t"
  shows \<open>Input name (Ptr fs) attrs =
     (\<lambda>kvs. Inr (''<div class="input-field col s12">'' @ active_label (index attrs ''label'') @
                  ''<input value="'' @
                  EscapeString (Value_String (Value (PkgPath f \<noteq> []) (Val f))) @ ''" '' @
                  attr_writes kvs @ '' name="'' @ t @ ''" /></div>'', attrs)) `
     range_orders attrs\<close>
  unfolding Input_found [OF assms] domElementSelfClose_in_lit by simp

lemma Textarea_shape:
  assumes "FieldByName fs name = Some f" and "Lookup (Tag f) ''json'' = Some t"
  shows \<open>Textarea name (Ptr fs) attrs =
     (\<lambda>kvs. Inr (''<div class="input-field col s12">'' @ active_label (index attrs ''label'') @
                  ''<textarea '' @ attr_writes kvs @ '' name="'' @ t @ ''" >'' @
                  EscapeString (Value_String (Value (PkgPath f \<noteq> []) (Val f))) @
                  ''</textarea></div>'', attrs)) `
     range_orders attrs\<close>
  unfolding Textarea_found [OF assms] domElement_in_lit by simp

lemma Timestamp_shape:
  assumes "FieldByName fs name = Some f" and "Lookup (Tag f) ''json'' = Some t"
    and "Val f = VInt tn n"
  shows \<open>Timestamp name (Ptr fs) attrs =
     (\<lambda>kvs. Inr (''<div class="input-field col s12">'' @ active_label (index attrs ''label'') @
                  ''<input value="'' @ (if n = 0 then [] else Sprintf_d (sint n)) @ ''" '' @
                  attr_writes kvs @ '' name="'' @ t @ ''" /></div>'', attrs)) `
     range_orders attrs\<close>
proof -
  have "EscapeString (if n = 0 then [] else Sprintf_d (sint n)) =
        (if n = 0 then [] else Sprintf_d (sint n))"
    by (simp add: EscapeString_Sprintf_d) (simp add: EscapeString_def)
  then show ?thesis
    unfolding Timestamp_found [OF assms] domElementSelfClose_in_lit by simp
qed

lemma Richtext_shape:
  assumes "FieldByName fs name = Some f" and "Lookup (Tag f) ''json'' = Some t"
    and "a2 = GoMap (AList.update ''id'' (''richtext-'' @ name)
                 (AList.update ''class'' (''richtext '' @ name) al))"
  shows \<open>Richtext name (Ptr fs) (GoMap al) =
     (\<lambda>kvs. Inr (''<div class="iso-texteditor input-field col s12"><label>'' @
                  index (GoMap al) ''label'' @ ''</label>'' @
                  ''<div class="input-field col s12"><div '' @ attr_writes kvs @
                  '' name="" ></div></div>'' @
                  ''<input type="hidden" name="'' @ t @ ''" class="richtext-value '' @ name @
                  ''" value="'' @
                  EscapeString (Value_String (Value (PkgPath f \<noteq> []) (Val f))) @ ''"/>'' @
                  ''</div>'' @
                  Richtext_script_0 @ name @ Richtext_script_1 @ name @ Richtext_script_2 @
                  index (GoMap al) ''placeholder'' @ Richtext_script_3, a2)) `
     range_orders a2\<close>
proof -
  have "index a2 ''placeholder'' = index (GoMap al) ''placeholder''"
    unfolding assms(3) by (simp add: index_update_other)
  then show ?thesis
    unfolding Richtext_found [OF assms(1,2)] domElement_in_lit assms(3) [symmetric]
    by (simp add: active_label_def EscapeString_def)
qed

lemma range_orders_two:
  "range_orders (GoMap [a, b]) = {[a, b], [b, a]}"
  by (simp add: range_orders_def)

lemma domElement_Select_cta:
  \<open>domElement Select_cta =
     {''<div class="input-field col s12"><option disabled="true" selected="true"  name="" >'' @
      ''Select an option...</option></div>'',
      ''<div class="input-field col s12"><option selected="true" disabled="true"  name="" >'' @
      ''Select an option...</option></div>''}\<close>
  by (simp add: domElement_def Select_cta_def range_orders_two domElement_in_lit
      active_label_def attr_writes_def EscapeString_def escape_char_def)

lemma domElement_Select_reset:
  \<open>domElement Select_reset =
     {''<div class="input-field col s12"><option value=""  name="" >None</option></div>''}\<close>
  by (simp add: domElement_def Select_reset_def range_orders_def domElement_in_lit
      active_label_def attr_writes_def EscapeString_def escape_char_def)

lemma Select_opt_Attrs:
  "Attrs (Select_opt fv (k, v)) =
     GoMap (if k = fv then [(''value'', k), (''selected'', ''true'')] else [(''value'', k)])"
  by (simp add: Select_opt_def)

lemma domElement_Select_opt:
  \<open>domElement (Select_opt fv (k, v)) =
     (if k = fv then
        {''<div class="input-field col s12"><option value="'' @ k @ ''" selected="true"  name="" >'' @
         EscapeString v @ ''</option></div>'',
         ''<div class="input-field col s12"><option selected="true" value="'' @ k @ ''"  name="" >'' @
         EscapeString v @ ''</option></div>''}
      else
        {''<div class="input-field col s12"><option value="'' @ k @ ''"  name="" >'' @
         EscapeString v @ ''</option></div>''})\<close>
proof (cases "k = fv")
  case True
  then have "Select_opt fv (k, v) =
      \<lparr>TagName = ''option'', Attrs = GoMap [(''value'', k), (''selected'', ''true'')],
       Name = [], label = [], data = v, viewBuf = []\<rparr>"
    by (simp add: Select_opt_def)
  then show ?thesis using True
    by (simp add: domElement_def range_orders_two domElement_in_lit active_label_def
        attr_writes_def)
next
  case False
  then have "Select_opt fv (k, v) =
      \<lparr>TagName = ''option'', Attrs = GoMap [(''value'', k)],
       Name = [], label = [], data = v, viewBuf = []\<rparr>"
    by (simp add: Select_opt_def)
  then show ?thesis using False
    by (simp add: domElement_def range_orders_def domElement_in_lit active_label_def
        attr_writes_def)
qed

lemma Select_shape:
  assumes "FieldByName fs name = Some f" and "Lookup (Tag f) ''json'' = Some t"
    and "a1 = GoMap (AList.update ''class'' ''browser-default'' al)"
  shows \<open>Select name (Ptr fs) (GoMap al) options =
     (\<Union>okvs\<in>range_orders options. \<Union>akvs\<in>range_orders a1.
        (\<lambda>cs. Inr (''<div class="input-field col s6"><select '' @ attr_writes akvs @
                    '' name="'' @ t @ ''" >'' @ concat cs @ ''</select>'' @
                    (if index (GoMap al) ''label'' \<noteq> []
                     then ''<label class="active">'' @ index (GoMap al) ''label'' @ ''</label>''
                     else []) @
                    ''</div>'', a1)) `
        choices (map domElement
          ([Select_cta, Select_reset] @
           map (Select_opt (Value_String (Value (PkgPath f \<noteq> []) (Val f)))) okvs)))\<close>
proof -
  have "index a1 ''label'' = index (GoMap al) ''label''"
    unfolding assms(3) by (simp add: index_update_other)
  then show ?thesis
    unfolding Select_found [OF assms(1,2)] assms(3) [symmetric] domElementWithChildrenSelect_def
      domElementWithChildrenSelect_in_lit
    by (simp add: image_UN image_image)
qed

lemma Tags_shape:
  assumes "FieldByName fs name = Some f" and "Lookup (Tag f) ''json'' = Some t"
    and "Val f = VStrings tn tags" and "PkgPath f = []"
  shows \<open>Tags name (Ptr fs) attrs =
     {Inr ((Tags_html_0 @ t @ Tags_html_1 @ index attrs ''label'' @ Tags_html_2 @ t @
            Tags_html_3 @
            concat (map (\<lambda>(j, tag). ''<input type="hidden" class="tag-'' @ tag @ ''" name='' @
                           (t @ ''.'' @ Sprintf_d (int j)) @ '' value="'' @ tag @ ''"/>'')
                      (enumerate 0 tags)) @
            ''</div>'') @
           (Tags_script_0 @ t @ Tags_script_1 @ t @ Tags_script_2 @
            Join (map (\<lambda>tag. ''{tag: '' @ tag @ ''}'') tags) '','' @
            Tags_script_3 @ t @ Tags_script_4 @ t @ Tags_script_5), attrs)}\<close>
  using Tags_loop_found [OF tagName_found [OF assms(1,2)], of tags 0] assms(3,4)
  by (simp add: Tags_def tagName_found [OF assms(1,2)] value_found [OF assms(1)])

lemma Checkbox_shape:
  assumes "FieldByName fs name = Some f" and "Lookup (Tag f) ''json'' = Some t"
    and "Val f = VStrings tn checked" and "PkgPath f = []"
    and "a1 = GoMap (AList.update ''class'' ''input-field col s12'' al)"
  shows \<open>Checkbox name (Ptr fs) (GoMap al) options =
     (\<Union>okvs\<in>range_orders options. \<Union>akvs\<in>range_orders a1.
        (\<lambda>cs. Inr (''<div '' @ attr_writes akvs @ '' >'' @
                    (if index (GoMap al) ''label'' \<noteq> []
                     then ''<label class="active">'' @ index (GoMap al) ''label'' @ ''</label>''
                     else []) @
                    concat cs @ ''</div><div class="clear padding">&nbsp;</div>'', a1)) `
        choices (map domElementCheckbox
          (map (\<lambda>(j, kv). \<lparr>TagName = ''input'', Attrs = Checkbox_inputAttrs checked kv,
                             Name = t @ ''.'' @ Sprintf_d (int j), label = snd kv, data = [],
                             viewBuf = []\<rparr>)
             (enumerate 0 okvs))))\<close>
proof -
  have l: "index a1 ''label'' = index (GoMap al) ''label''"
    unfolding assms(5) by (simp add: index_update_other)
  have w: "newElement ''div'' (index a1 ''label'') [] (Ptr fs) a1 =
      Inr \<lparr>TagName = ''div'', Attrs = a1, Name = [], label = index a1 ''label'',
           data = ''<invalid Value>'', viewBuf = []\<rparr>"
    by (simp add: newElement_def tagNameFromStructField_def valueFromStructField_def
        Value_FieldByName_def FieldByName_empty)
  have loop: "\<And>okvs. Checkbox_loop name (Ptr fs) checked okvs 0 [] =
      Inr (map (\<lambda>(j, kv). \<lparr>TagName = ''input'', Attrs = Checkbox_inputAttrs checked kv,
                             Name = t @ ''.'' @ Sprintf_d (int j), label = snd kv, data = [],
                             viewBuf = []\<rparr>) (enumerate 0 okvs))"
    using Checkbox_loop_found [OF tagName_found [OF assms(1,2)], of checked _ 0 "[]"] by simp
  have "Checkbox name (Ptr fs) (GoMap al) options =
      (\<Union>okvs\<in>range_orders options.
         (\<lambda>out. Inr (out, a1)) `
           domElementWithChildrenCheckbox
             \<lparr>TagName = ''div'', Attrs = a1, Name = [], label = index a1 ''label'',
              data = ''<invalid Value>'', viewBuf = []\<rparr>
             (map (\<lambda>(j, kv). \<lparr>TagName = ''input'', Attrs = Checkbox_inputAttrs checked kv,
                             Name = t @ ''.'' @ Sprintf_d (int j), label = snd kv, data = [],
                             viewBuf = []\<rparr>) (enumerate 0 okvs)))"
    using w assms(3,4) unfolding assms(5)
    by (simp add: Checkbox_def value_found [OF assms(1)] loop)
  then show ?thesis
    unfolding domElementWithChildrenCheckbox_def domElementWithChildrenCheckbox_in_lit l
    by (simp add: image_UN image_image)
qed

text \<open>The bytes of one checkbox input, and the result of Checkbox with the bytes of its
  inputs written out.\<close>

lemma domElementCheckbox_lit:
  \<open>domElementCheckbox
     \<lparr>TagName = tg, Attrs = a, Name = nm, label = l, data = d, viewBuf = []\<rparr> =
   (\<lambda>kvs. ''<p class="col s6"><'' @ tg @ '' '' @ attr_writes kvs @
           '' name="'' @ nm @ ''" /> '' @
           (if l \<noteq> [] then
              ''<label for="'' @ Join (Split l (CHR '' '')) ''-'' @ ''">'' @ l @ ''</label>''
            else []) @
           ''</p>'') ` range_orders a\<close>
  by (simp add: domElementCheckbox_def domElementCheckbox_in_lit)

lemma fold_checked:
  "fold (\<lambda>x m. if k = x then AList.update c v m else m) xs base =
     (if k \<in> set xs then AList.update c v base else base)"
proof (induction xs arbitrary: base)
  case Nil
  then show ?case by simp
next
  case (Cons x xs)
  show ?case
  proof (cases "k = x")
    case True
    have "fold (\<lambda>x m. if k = x then AList.update c v m else m) (x # xs) base =
          fold (\<lambda>x m. if k = x then AList.update c v m else m) xs (AList.update c v base)"
      using True by simp
    also have "\<dots> = (if k \<in> set xs then AList.update c v (AList.update c v base)
                     else AList.update c v base)"
      by (rule Cons)
    also have "\<dots> = AList.update c v base"
      by simp
    finally show ?thesis using True by simp
  next
    case False
    then show ?thesis using Cons [of base] by simp
  qed
qed

lemma Checkbox_inputAttrs_entries:
  "Checkbox_inputAttrs checked (k, v) =
     GoMap ([(''type'', ''checkbox''), (''value'', k), (''id'', Join (Split v (CHR '' '')) ''-'')] @
            (if k \<in> set checked then [(''checked'', ''checked'')] else []))"
  by (simp add: Checkbox_inputAttrs_def fold_checked)

lemma Checkbox_bytes:
  assumes "FieldByName fs name = Some f" and "Lookup (Tag f) ''json'' = Some t"
    and "Val f = VStrings tn checked" and "PkgPath f = []"
    and "a1 = GoMap (AList.update ''class'' ''input-field col s12'' al)"
  shows \<open>Checkbox name (Ptr fs) (GoMap al) options =
     (\<Union>okvs\<in>range_orders options. \<Union>akvs\<in>range_orders a1.
        (\<lambda>cs. Inr (''<div '' @ attr_writes akvs @ '' >'' @
                    (if index (GoMap al) ''label'' \<noteq> []
                     then ''<label class="active">'' @ index (GoMap al) ''label'' @ ''</label>''
                     else []) @
                    concat cs @ ''</div><div class="clear padding">&nbsp;</div>'', a1)) `
        choices (map (\<lambda>(j, kv).
                   (\<lambda>ikvs. ''<p class="col s6"><input '' @ attr_writes ikvs @
                            '' name="'' @ (t @ ''.'' @ Sprintf_d (int j)) @ ''" /> '' @
                            (if snd kv \<noteq> [] then
                               ''<label for="'' @ Join (Split (snd kv) (CHR '' '')) ''-'' @ ''">'' @
                               snd kv @ ''</label>''
                             else []) @
                            ''</p>'') ` range_orders (Checkbox_inputAttrs checked kv))
                 (zip [0..<length okvs] okvs)))\<close>
proof -
  have e: "\<And>ys :: (string \<times> string) list. enumerate 0 ys = zip [0..<length ys] ys"
    by (simp add: enumerate_eq_zip)
  have m: \<open>\<And>zs :: (nat \<times> string \<times> string) list.
      map domElementCheckbox
        (map (\<lambda>(j, kv). \<lparr>TagName = ''input'', Attrs = Checkbox_inputAttrs checked kv,
                          Name = t @ ''.'' @ Sprintf_d (int j), label = snd kv, data = [],
                          viewBuf = []\<rparr>) zs) =
      map (\<lambda>(j, kv).
             (\<lambda>ikvs. ''<p class="col s6"><input '' @ attr_writes ikvs @
                      '' name="'' @ (t @ ''.'' @ Sprintf_d (int j)) @ ''" /> '' @
                      (if snd kv \<noteq> [] then
                         ''<label for="'' @ Join (Split (snd kv) (CHR '' '')) ''-'' @ ''">'' @
                         snd kv @ ''</label>''
                       else []) @
                      ''</p>'') ` range_orders (Checkbox_inputAttrs checked kv)) zs\<close>
    unfolding map_map comp_def case_prod_unfold domElementCheckbox_lit by simp
  show ?thesis
    unfolding Checkbox_shape [OF assms] e m by (rule refl)
qed

section \<open>The example struct\<close>

lemma example_Title:
  "FieldByName example_fields ''Title'' =
     Some \<lparr>FieldName = ''Title'', PkgPath = [], Tag = [(''json'', ''title'')],
           Val = VString ''a<b''\<rparr>"
  by (simp add: example_fields_def FieldByName_def)

lemma example_Timestamp:
  "FieldByName example_fields ''Timestamp'' =
     Some \<lparr>FieldName = ''Timestamp'', PkgPath = [], Tag = [(''json'', ''timestamp'')],
           Val = VInt ''int64'' 42\<rparr>"
  by (simp add: example_fields_def FieldByName_def)

lemma example_Category:
  "FieldByName example_fields ''Category'' =
     Some \<lparr>FieldName = ''Category'', PkgPath = [], Tag = [(''json'', ''category'')],
           Val = VStrings ''[]string'' [''a'', ''b'']\<rparr>"
  by (simp add: example_fields_def FieldByName_def)

lemma example_Title_tag:
  "Lookup (Tag \<lparr>FieldName = ''Title'', PkgPath = [], Tag = [(''json'', ''title'')],
                 Val = VString ''a<b''\<rparr>) ''json'' = Some ''title''"
  by (simp add: Lookup_def)

lemma example_Timestamp_tag:
  "Lookup (Tag \<lparr>FieldName = ''Timestamp'', PkgPath = [], Tag = [(''json'', ''timestamp'')],
                 Val = VInt ''int64'' 42\<rparr>) ''json'' = Some ''timestamp''"
  by (simp add: Lookup_def)

lemma example_Category_tag:
  "Lookup (Tag \<lparr>FieldName = ''Category'', PkgPath = [], Tag = [(''json'', ''category'')],
                 Val = VStrings ''[]string'' [''a'', ''b'']\<rparr>) ''json'' = Some ''category''"
  by (simp add: Lookup_def)

lemma example_Title_val:
  "Val \<lparr>FieldName = ''Title'', PkgPath = [], Tag = [(''json'', ''title'')],
        Val = VString ''a<b''\<rparr> = VString ''a<b''"
  by simp

lemma example_Timestamp_val:
  "Val \<lparr>FieldName = ''Timestamp'', PkgPath = [], Tag = [(''json'', ''timestamp'')],
        Val = VInt ''int64'' 42\<rparr> = VInt ''int64'' 42"
  by simp


section \<open>Which calls return and which panic\<close>






lemma domElementSelfClose_nonempty: "domElementSelfClose e \<noteq> {}"
  by (simp add: domElementSelfClose_def range_orders_nonempty)

lemma domElement_nonempty: "domElement e \<noteq> {}"
  by (simp add: domElement_def range_orders_nonempty)

lemma domElementCheckbox_nonempty: "domElementCheckbox e \<noteq> {}"
  by (simp add: domElementCheckbox_def range_orders_nonempty)

lemma choices_nonempty: "(\<And>A. A \<in> set As \<Longrightarrow> A \<noteq> {}) \<Longrightarrow> choices As \<noteq> {}"
  by (induction As) auto

lemma domElementWithChildrenSelect_nonempty: "domElementWithChildrenSelect e cs \<noteq> {}"
proof -
  have "choices (map domElement cs) \<noteq> {}"
    by (rule choices_nonempty) (auto simp: domElement_nonempty)
  then show ?thesis
    using range_orders_nonempty [of "Attrs e"] by (auto simp: domElementWithChildrenSelect_def)
qed

lemma domElementWithChildrenCheckbox_nonempty: "domElementWithChildrenCheckbox e cs \<noteq> {}"
proof -
  have "choices (map domElementCheckbox cs) \<noteq> {}"
    by (rule choices_nonempty) (auto simp: domElementCheckbox_nonempty)
  then show ?thesis
    using range_orders_nonempty [of "Attrs e"] by (auto simp: domElementWithChildrenCheckbox_def)
qed


















section \<open>The name attribute\<close>

text \<open>
  Claim C2. When the struct has the field and the tag of the field has the key json with
  the value \<open>t\<close>, tagNameFromStructField returns \<open>t\<close> (also for a nil pointer, since only
  the type is read), and \<open>t\<close> is the name attribute in the markup of the field: of the
  input of Input and of Timestamp, of the textarea, of the hidden input of File and of
  Richtext, and of the select.
\<close>

theorem tag_name_is_name_attribute:
  assumes "FieldByName fs fieldName = Some f" and "Lookup (Tag f) ''json'' = Some t"
    and "v = Value_String (Value (PkgPath f \<noteq> []) (Val f))"
    and "a1 = GoMap (AList.update ''class'' ''browser-default'' al)"
    and "a2 = GoMap (AList.update ''id'' (''richtext-'' @ fieldName)
                 (AList.update ''class'' (''richtext '' @ fieldName) al))"
  shows \<open>tagNameFromStructField fieldName (Ptr fs) = Inr t
    \<and> tagNameFromStructField fieldName (NilPtr fs) = Inr t
    \<and> Input fieldName (Ptr fs) attrs =
        (\<lambda>kvs. Inr (''<div class="input-field col s12">'' @
                     active_label (index attrs ''label'') @
                     ''<input value="'' @ EscapeString v @ ''" '' @
                     attr_writes kvs @ '' name="'' @ t @ ''" /></div>'', attrs)) `
        range_orders attrs
    \<and> Textarea fieldName (Ptr fs) attrs =
        (\<lambda>kvs. Inr (''<div class="input-field col s12">'' @
                     active_label (index attrs ''label'') @
                     ''<textarea '' @ attr_writes kvs @ '' name="'' @ t @ ''" >'' @
                     EscapeString v @ ''</textarea></div>'', attrs)) `
        range_orders attrs
    \<and> (Val f = VInt tn n \<longrightarrow>
        Timestamp fieldName (Ptr fs) attrs =
        (\<lambda>kvs. Inr (''<div class="input-field col s12">'' @
                     active_label (index attrs ''label'') @
                     ''<input value="'' @ (if n = 0 then [] else Sprintf_d (sint n)) @ ''" '' @
                     attr_writes kvs @ '' name="'' @ t @ ''" /></div>'', attrs)) `
        range_orders attrs)
    \<and> File fieldName (Ptr fs) attrs =
        {Inr ((File_tmpl_0 @ t @ File_tmpl_1 @ index attrs ''label'' @ File_tmpl_2 @
               index attrs ''label'' @ File_tmpl_3 @ t @ File_tmpl_4 @ t @
               File_tmpl_5 @ v @ File_tmpl_6) @
              (File_script_0 @ t @ File_script_1 @ t @ File_script_2 @ t @
               File_script_3 @ t @ File_script_4 @ t @ File_script_5), attrs)}
    \<and> File_tmpl_3 @ t @ File_tmpl_4 @ t @ File_tmpl_5 =
        ''" type="text">\<newline>'' @ tabs 4 @ ''</div>\<newline>'' @ tabs 3 @ ''</div>\<newline>'' @
        tabs 3 @ ''<div class="preview"><div class="img-clip"></div></div>'' @ tabs 3 @
        ''\<newline>'' @ tabs 3 @
        ''<input class="store '' @ t @ ''" type="hidden" name="'' @ t @ ''" value="''
    \<and> Richtext fieldName (Ptr fs) (GoMap al) =
        (\<lambda>kvs. Inr (''<div class="iso-texteditor input-field col s12"><label>'' @
                     index (GoMap al) ''label'' @ ''</label>'' @
                     ''<div class="input-field col s12"><div '' @ attr_writes kvs @
                     '' name="" ></div></div>'' @
                     ''<input type="hidden" name="'' @ t @ ''" class="richtext-value '' @
                     fieldName @ ''" value="'' @ EscapeString v @ ''"/>'' @
                     ''</div>'' @
                     Richtext_script_0 @ fieldName @ Richtext_script_1 @ fieldName @
                     Richtext_script_2 @ index (GoMap al) ''placeholder'' @ Richtext_script_3,
                     a2)) `
        range_orders a2
    \<and> Select fieldName (Ptr fs) (GoMap al) options =
        (\<Union>okvs\<in>range_orders options. \<Union>akvs\<in>range_orders a1.
           (\<lambda>cs. Inr (''<div class="input-field col s6"><select '' @ attr_writes akvs @
                       '' name="'' @ t @ ''" >'' @ concat cs @ ''</select>'' @
                       (if index (GoMap al) ''label'' \<noteq> []
                        then ''<label class="active">'' @ index (GoMap al) ''label'' @ ''</label>''
                        else []) @
                       ''</div>'', a1)) `
           choices (map domElement ([Select_cta, Select_reset] @ map (Select_opt v) okvs)))\<close>
proof -
  note found = assms(1,2)
  have "tagNameFromStructField fieldName (NilPtr fs) = Inr t"
    using found FieldByName_name [of fs fieldName f] by (simp add: tagNameFromStructField_def)
  moreover have \<open>File_tmpl_3 @ t @ File_tmpl_4 @ t @ File_tmpl_5 =
        ''" type="text">\<newline>'' @ tabs 4 @ ''</div>\<newline>'' @ tabs 3 @ ''</div>\<newline>'' @
        tabs 3 @ ''<div class="preview"><div class="img-clip"></div></div>'' @ tabs 3 @
        ''\<newline>'' @ tabs 3 @
        ''<input class="store '' @ t @ ''" type="hidden" name="'' @ t @ ''" value="''\<close>
    by (simp add: File_tmpl_3_def File_tmpl_4_def File_tmpl_5_def)
  moreover have \<open>Val f = VInt tn n \<longrightarrow>
        Timestamp fieldName (Ptr fs) attrs =
        (\<lambda>kvs. Inr (''<div class="input-field col s12">'' @
                     active_label (index attrs ''label'') @
                     ''<input value="'' @ (if n = 0 then [] else Sprintf_d (sint n)) @ ''" '' @
                     attr_writes kvs @ '' name="'' @ t @ ''" /></div>'', attrs)) `
        range_orders attrs\<close>
    using Timestamp_shape [OF found] by blast
  ultimately show ?thesis
    unfolding assms(3)
    using tagName_found [OF found] Input_shape [OF found] Textarea_shape [OF found]
      File_found [OF found] Richtext_shape [OF found assms(5)] Select_shape [OF found assms(4)]
    by (intro conjI)
qed

text \<open>An instance: the field Title of the example struct, rendered by Input with no
  attributes.\<close>

theorem tag_name_is_name_attribute_witness:
  \<open>FieldByName example_fields ''Title'' =
     Some \<lparr>FieldName = ''Title'', PkgPath = [], Tag = [(''json'', ''title'')],
           Val = VString ''a<b''\<rparr>
   \<and> tagNameFromStructField ''Title'' (Ptr example_fields) = Inr ''title''
   \<and> Input ''Title'' (Ptr example_fields) (GoMap []) =
       {Inr (''<div class="input-field col s12"><input value="a&lt;b"  name="title" /></div>'',
             GoMap [])}\<close>
proof -
  note T = tag_name_is_name_attribute [OF example_Title example_Title_tag refl refl refl,
      where attrs = "GoMap []"]
  from T have "tagNameFromStructField ''Title'' (Ptr example_fields) = Inr ''title''"
    by (rule conjunct1)
  moreover from T have \<open>Input ''Title'' (Ptr example_fields) (GoMap []) =
       {Inr (''<div class="input-field col s12"><input value="a&lt;b"  name="title" /></div>'',
             GoMap [])}\<close>
    unfolding range_orders_def
    by (simp add: active_label_def index_def EscapeString_def escape_char_def attr_writes_def)
  ultimately show ?thesis using example_Title by simp
qed

section \<open>Names of multi-valued fields\<close>

text \<open>
  Claim C3. The name that tagNameFromStructFieldMulti returns is the name that
  tagNameFromStructField returns, a dot, and the index in decimal digits (it panics
  when the latter does). For an exported field that is a []string (or an array of
  strings) and has a json tag \<open>t\<close>, Tags
  writes one hidden input per saved tag, in the order of the slice, the input at
  position \<open>j\<close> named \<open>t.j\<close>; Checkbox renders one input per option, in the order in
  which the loop visits the options, and the bytes of the input at position \<open>j\<close> are
  the opening of the paragraph, the attributes type, value, id (and checked) in the
  order of their own loop, then \<open>name="t.j"\<close>, the label and the closing of the
  paragraph. The positions are \<open>0, 1, ..\<close> up to the number of tags or options. The
  result of Checkbox is given byte for byte: membership in \<open>choices\<close> is one choice of
  an attribute order per input.
\<close>

theorem multi_valued_names:
  assumes "FieldByName fs fieldName = Some f" and "Lookup (Tag f) ''json'' = Some t"
    and "Val f = VStrings tn xs" and "PkgPath f = []"
    and "a1 = GoMap (AList.update ''class'' ''input-field col s12'' al)"
  shows \<open>tagNameFromStructFieldMulti name i p =
      (case tagNameFromStructField name p of
         Inl e \<Rightarrow> Inl e
       | Inr tag \<Rightarrow> Inr (tag @ ''.'' @ Sprintf_d i))
    \<and> tagNameFromStructFieldMulti fieldName (int j) (Ptr fs) = Inr (t @ ''.'' @ digits j)
    \<and> decimal_value (digits j) = j
    \<and> set (digits j) \<subseteq> set ''0123456789''
    \<and> Tags fieldName (Ptr fs) attrs =
        {Inr ((Tags_html_0 @ t @ Tags_html_1 @ index attrs ''label'' @ Tags_html_2 @ t @
               Tags_html_3 @
               concat (map (\<lambda>(j, tag). ''<input type="hidden" class="tag-'' @ tag @ ''" name='' @
                              (t @ ''.'' @ Sprintf_d (int j)) @ '' value="'' @ tag @ ''"/>'')
                         (zip [0..<length xs] xs)) @
               ''</div>'') @
              (Tags_script_0 @ t @ Tags_script_1 @ t @ Tags_script_2 @
               Join (map (\<lambda>tag. ''{tag: '' @ tag @ ''}'') xs) '','' @
               Tags_script_3 @ t @ Tags_script_4 @ t @ Tags_script_5), attrs)}
    \<and> Checkbox fieldName (Ptr fs) (GoMap al) options =
        (\<Union>okvs\<in>range_orders options. \<Union>akvs\<in>range_orders a1.
           (\<lambda>cs. Inr (''<div '' @ attr_writes akvs @ '' >'' @
                       (if index (GoMap al) ''label'' \<noteq> []
                        then ''<label class="active">'' @ index (GoMap al) ''label'' @ ''</label>''
                        else []) @
                       concat cs @ ''</div><div class="clear padding">&nbsp;</div>'', a1)) `
           choices (map (\<lambda>(j, kv).
                      (\<lambda>ikvs. ''<p class="col s6"><input '' @ attr_writes ikvs @
                               '' name="'' @ (t @ ''.'' @ Sprintf_d (int j)) @ ''" /> '' @
                               (if snd kv \<noteq> [] then
                                  ''<label for="'' @ Join (Split (snd kv) (CHR '' '')) ''-'' @
                                  ''">'' @ snd kv @ ''</label>''
                                else []) @
                               ''</p>'') ` range_orders (Checkbox_inputAttrs xs kv))
                    (zip [0..<length okvs] okvs)))
    \<and> (cs \<in> choices (map F zs) \<longleftrightarrow> list_all2 (\<lambda>c z. c \<in> F z) cs zs)
    \<and> Checkbox_inputAttrs xs (k, v) =
        GoMap ([(''type'', ''checkbox''), (''value'', k),
                (''id'', Join (Split v (CHR '' '')) ''-'')] @
               (if k \<in> set xs then [(''checked'', ''checked'')] else []))
    \<and> domElementCheckbox_in kvs
          \<lparr>TagName = ''input'', Attrs = a, Name = nm, label = l, data = [], viewBuf = []\<rparr> =
        ''<p class="col s6"><input '' @ attr_writes kvs @ '' name="'' @ nm @ ''" /> '' @
        (if l \<noteq> [] then
           ''<label for="'' @ Join (Split l (CHR '' '')) ''-'' @ ''">'' @ l @ ''</label>''
         else []) @
        ''</p>''\<close>
proof -
  note found = assms(1,2)
  have e: "enumerate 0 xs = zip [0..<length xs] xs"
    by (simp add: enumerate_eq_zip)
  have "tagNameFromStructFieldMulti fieldName (int j) (Ptr fs) = Inr (t @ ''.'' @ digits j)"
    by (simp add: tagNameFromStructFieldMulti_def tagName_found [OF found] Sprintf_d_nonneg)
  moreover have "tagNameFromStructFieldMulti name i p =
      (case tagNameFromStructField name p of
         Inl e \<Rightarrow> Inl e
       | Inr tag \<Rightarrow> Inr (tag @ ''.'' @ Sprintf_d i))"
    by (simp only: tagNameFromStructFieldMulti_def)
  moreover have \<open>domElementCheckbox_in kvs
          \<lparr>TagName = ''input'', Attrs = a, Name = nm, label = l, data = [], viewBuf = []\<rparr> =
        ''<p class="col s6"><input '' @ attr_writes kvs @ '' name="'' @ nm @ ''" /> '' @
        (if l \<noteq> [] then
           ''<label for="'' @ Join (Split l (CHR '' '')) ''-'' @ ''">'' @ l @ ''</label>''
         else []) @
        ''</p>''\<close>
    unfolding domElementCheckbox_in_lit by simp
  ultimately show ?thesis
    using Tags_shape [OF found assms(3,4)] Checkbox_bytes [OF found assms(3,4,5)]
      decimal_value_digits [of j] digits_chars [of j] choices_map_iff [of cs F zs]
      Checkbox_inputAttrs_entries [of xs k v]
    unfolding e
    by (intro conjI)
qed

text \<open>An instance: the field Category of the example struct, which holds two values; the
  two names that Tags writes for them, and the two results of Checkbox with no attributes
  and the two options \<open>a\<close> and \<open>c\<close> in which the attributes of the inputs are written in
  the order of their assignment: the first input is named \<open>category.0\<close> and the second
  \<open>category.1\<close>, whichever option the loop visits first.\<close>

theorem multi_valued_names_witness:
  \<open>FieldByName example_fields ''Category'' =
     Some \<lparr>FieldName = ''Category'', PkgPath = [], Tag = [(''json'', ''category'')],
           Val = VStrings ''[]string'' [''a'', ''b'']\<rparr>
   \<and> tagNameFromStructFieldMulti ''Category'' 1 (Ptr example_fields) = Inr ''category.1''
   \<and> Tags ''Category'' (Ptr example_fields) (GoMap []) =
        {Inr ((Tags_html_0 @ ''category'' @ Tags_html_1 @ Tags_html_2 @ ''category'' @
               Tags_html_3 @
               ''<input type="hidden" class="tag-a" name=category.0 value="a"/>'' @
               ''<input type="hidden" class="tag-b" name=category.1 value="b"/>'' @
               ''</div>'') @
              (Tags_script_0 @ ''category'' @ Tags_script_1 @ ''category'' @ Tags_script_2 @
               ''{tag: a},{tag: b}'' @
               Tags_script_3 @ ''category'' @ Tags_script_4 @ ''category'' @ Tags_script_5),
              GoMap [])}
   \<and> Inr (''<div class="input-field col s12"  >'' @
          ''<p class="col s6"><input type="checkbox" value="a" id="The-A" checked="checked" '' @
          '' name="category.0" /> <label for="The-A">The A</label></p>'' @
          ''<p class="col s6"><input type="checkbox" value="c" id="C" '' @
          '' name="category.1" /> <label for="C">C</label></p>'' @
          ''</div><div class="clear padding">&nbsp;</div>'',
          GoMap [(''class'', ''input-field col s12'')])
       \<in> Checkbox ''Category'' (Ptr example_fields) (GoMap [])
           (GoMap [(''a'', ''The A''), (''c'', ''C'')])
   \<and> Inr (''<div class="input-field col s12"  >'' @
          ''<p class="col s6"><input type="checkbox" value="c" id="C" '' @
          '' name="category.0" /> <label for="C">C</label></p>'' @
          ''<p class="col s6"><input type="checkbox" value="a" id="The-A" checked="checked" '' @
          '' name="category.1" /> <label for="The-A">The A</label></p>'' @
          ''</div><div class="clear padding">&nbsp;</div>'',
          GoMap [(''class'', ''input-field col s12'')])
       \<in> Checkbox ''Category'' (Ptr example_fields) (GoMap [])
           (GoMap [(''a'', ''The A''), (''c'', ''C'')])\<close>
proof -
  have v: "Val \<lparr>FieldName = ''Category'', PkgPath = [], Tag = [(''json'', ''category'')],
           Val = VStrings ''[]string'' [''a'', ''b'']\<rparr> = VStrings ''[]string'' [''a'', ''b'']"
    and e: "PkgPath \<lparr>FieldName = ''Category'', PkgPath = [], Tag = [(''json'', ''category'')],
           Val = VStrings ''[]string'' [''a'', ''b'']\<rparr> = []"
    by simp_all
  note T = multi_valued_names [OF example_Category example_Category_tag v e refl,
      where attrs = "GoMap []" and j = 1 and al = "[]"
        and options = "GoMap [(''a'', ''The A''), (''c'', ''C'')]"]
  from T have "tagNameFromStructFieldMulti ''Category'' (int 1) (Ptr example_fields) =
      Inr (''category'' @ ''.'' @ digits 1)"
    by blast
  then have 1: "tagNameFromStructFieldMulti ''Category'' 1 (Ptr example_fields) = Inr ''category.1''"
    by (simp add: digits.simps)
  have u: "[0..<2] = [0, 1]" by (simp add: upt_rec)
  note tags = T [THEN conjunct2, THEN conjunct2, THEN conjunct2, THEN conjunct2, THEN conjunct1]
  note chk = T [THEN conjunct2, THEN conjunct2, THEN conjunct2, THEN conjunct2, THEN conjunct2,
      THEN conjunct1]
  from tags have 2: \<open>Tags ''Category'' (Ptr example_fields) (GoMap []) =
        {Inr ((Tags_html_0 @ ''category'' @ Tags_html_1 @ Tags_html_2 @ ''category'' @
               Tags_html_3 @
               ''<input type="hidden" class="tag-a" name=category.0 value="a"/>'' @
               ''<input type="hidden" class="tag-b" name=category.1 value="b"/>'' @
               ''</div>'') @
              (Tags_script_0 @ ''category'' @ Tags_script_1 @ ''category'' @ Tags_script_2 @
               ''{tag: a},{tag: b}'' @
               Tags_script_3 @ ''category'' @ Tags_script_4 @ ''category'' @ Tags_script_5),
              GoMap [])}\<close>
    by (simp add: index_def u Sprintf_d_def digits.simps)
  let ?a1 = "GoMap (AList.update ''class'' ''input-field col s12'' [])"
  let ?B = \<open>\<lambda>j kv ikvs. ''<p class="col s6"><input '' @ attr_writes ikvs @
                               '' name="'' @ (''category'' @ ''.'' @ Sprintf_d (int j)) @ ''" /> '' @
                               (if snd kv \<noteq> [] then
                                  ''<label for="'' @ Join (Split (snd kv) (CHR '' '')) ''-'' @
                                  ''">'' @ snd kv @ ''</label>''
                                else []) @
                               ''</p>''\<close>
  let ?H = \<open>\<lambda>akvs cs. Inr (''<div '' @ attr_writes akvs @ '' >'' @
                       (if index (GoMap []) ''label'' \<noteq> []
                        then ''<label class="active">'' @ index (GoMap []) ''label'' @ ''</label>''
                        else []) @
                       concat cs @ ''</div><div class="clear padding">&nbsp;</div>'', ?a1)\<close>
  have member: \<open>?H (entries ?a1)
                 (map (\<lambda>(j, kv). ?B j kv (entries (Checkbox_inputAttrs [''a'', ''b''] kv)))
                    (zip [0..<length okvs] okvs))
       \<in> Checkbox ''Category'' (Ptr example_fields) (GoMap [])
           (GoMap [(''a'', ''The A''), (''c'', ''C'')])\<close>
    if "okvs \<in> range_orders (GoMap [(''a'', ''The A''), (''c'', ''C'')])" for okvs
  proof -
    have "list_all2 (\<lambda>z z'. (case z of (j, kv) \<Rightarrow>
                ?B j kv (entries (Checkbox_inputAttrs [''a'', ''b''] kv)))
              \<in> (case z' of (j, kv) \<Rightarrow>
                   ?B j kv ` range_orders (Checkbox_inputAttrs [''a'', ''b''] kv)))
            (zip [0..<length okvs] okvs) (zip [0..<length okvs] okvs)"
    proof (rule list_all2_refl)
      fix z :: "nat \<times> string \<times> string"
      obtain j kv where z: "z = (j, kv)" by (cases z)
      have "?B j kv (entries (Checkbox_inputAttrs [''a'', ''b''] kv))
            \<in> ?B j kv ` range_orders (Checkbox_inputAttrs [''a'', ''b''] kv)"
        by (rule imageI) (rule entries_in_range_orders)
      then show "(case z of (j, kv) \<Rightarrow>
                ?B j kv (entries (Checkbox_inputAttrs [''a'', ''b''] kv)))
              \<in> (case z of (j, kv) \<Rightarrow>
                   ?B j kv ` range_orders (Checkbox_inputAttrs [''a'', ''b''] kv))"
        unfolding z prod.case .
    qed
    then have cs: "map (\<lambda>(j, kv). ?B j kv (entries (Checkbox_inputAttrs [''a'', ''b''] kv)))
            (zip [0..<length okvs] okvs)
          \<in> choices (map (\<lambda>(j, kv). ?B j kv ` range_orders (Checkbox_inputAttrs [''a'', ''b''] kv))
                        (zip [0..<length okvs] okvs))"
      unfolding choices_map_iff list_all2_map1 .
    show ?thesis
      unfolding chk
      by (rule UN_I [OF that], rule UN_I [OF entries_in_range_orders], rule imageI, rule cs)
  qed
  have o1: "[(''a'', ''The A''), (''c'', ''C'')] \<in> range_orders (GoMap [(''a'', ''The A''), (''c'', ''C'')])"
    and o2: "[(''c'', ''C''), (''a'', ''The A'')] \<in> range_orders (GoMap [(''a'', ''The A''), (''c'', ''C'')])"
    by (simp_all add: range_orders_iff)
  have 3: \<open>Inr (''<div class="input-field col s12"  >'' @
          ''<p class="col s6"><input type="checkbox" value="a" id="The-A" checked="checked" '' @
          '' name="category.0" /> <label for="The-A">The A</label></p>'' @
          ''<p class="col s6"><input type="checkbox" value="c" id="C" '' @
          '' name="category.1" /> <label for="C">C</label></p>'' @
          ''</div><div class="clear padding">&nbsp;</div>'',
          GoMap [(''class'', ''input-field col s12'')])
       \<in> Checkbox ''Category'' (Ptr example_fields) (GoMap [])
           (GoMap [(''a'', ''The A''), (''c'', ''C'')])\<close>
    using member [OF o1]
    by (simp add: Checkbox_inputAttrs_entries index_def attr_writes_def u
        Sprintf_d_def digits.simps)
  have 4: \<open>Inr (''<div class="input-field col s12"  >'' @
          ''<p class="col s6"><input type="checkbox" value="c" id="C" '' @
          '' name="category.0" /> <label for="C">C</label></p>'' @
          ''<p class="col s6"><input type="checkbox" value="a" id="The-A" checked="checked" '' @
          '' name="category.1" /> <label for="The-A">The A</label></p>'' @
          ''</div><div class="clear padding">&nbsp;</div>'',
          GoMap [(''class'', ''input-field col s12'')])
       \<in> Checkbox ''Category'' (Ptr example_fields) (GoMap [])
           (GoMap [(''a'', ''The A''), (''c'', ''C'')])\<close>
    using member [OF o2]
    by (simp add: Checkbox_inputAttrs_entries index_def attr_writes_def u
        Sprintf_d_def digits.simps)
  from 1 2 3 4 example_Category show ?thesis by (intro conjI)
qed

section \<open>The memory after a call\<close>

text \<open>A step followed by the rest of the call, for each kind of step.\<close>

lemma then_step_reading:
  "then_step (reading f p) g s =
     (case f (deref_post s p) of Inl e \<Rightarrow> {(Inl e, s)} | Inr x \<Rightarrow> g x s)"
  by (simp add: then_step_def reading_def)

lemma then_step_pure:
  "then_step (pure_step r) g s = (case r of Inl e \<Rightarrow> {(Inl e, s)} | Inr x \<Rightarrow> g x s)"
  by (simp add: then_step_def pure_step_def)

lemma then_step_return: "then_step (return_step x) g s = g x s"
  by (simp add: then_step_def return_step_def)

lemma then_step_load: "then_step (load_step r) g s = g (deref_map s r) s"
  by (simp add: then_step_def load_step_def)

lemma then_step_index: "then_step (index_step r k) g s = g (index (deref_map s r) k) s"
  by (simp add: then_step_def index_step_def)

lemma then_step_assign:
  "then_step (assign_step r k v) g s =
     (case r of None \<Rightarrow> {(Inl RuntimePanic, s)} | Some a \<Rightarrow> g () (set_entry a k v s))"
  by (cases r) (simp_all add: then_step_def assign_step_def)

lemma then_step_range:
  "then_step (range_step r) g s = (\<Union>kvs\<in>range_orders (deref_map s r). g kvs s)"
  by (simp add: then_step_def range_step_def)

lemma then_step_render:
  "then_step (render_step render e r) g s =
     (\<Union>out\<in>render (e\<lparr>Attrs := deref_map s r\<rparr>). g out s)"
  by (simp add: then_step_def render_step_def)

lemma newElement_step_eq:
  "newElement_step tg lbl name p r s =
     {(newElement tg lbl name (deref_post s p) (deref_map s r), s)}"
  by (simp add: newElement_step_def newElement_def then_step_load then_step_reading
      return_step_def split: sum.split)

lemma then_step_newElement:
  "then_step (newElement_step tg lbl name p r) g s =
     (case newElement tg lbl name (deref_post s p) (deref_map s r) of
        Inl e \<Rightarrow> {(Inl e, s)}
      | Inr x \<Rightarrow> g x s)"
  by (simp add: then_step_def newElement_step_eq)

lemmas then_step_simps = then_step_reading then_step_pure then_step_return then_step_load
  then_step_index then_step_assign then_step_range then_step_render then_step_newElement

lemma deref_set_entry:
  "deref_post (set_entry a k v s) p = deref_post s p"
  "deref_map (set_entry a k v s) r =
     (if r = Some a then GoMap (AList.update k v (heap_maps s a)) else deref_map s r)"
  by (simp_all add: deref_post_def deref_map_def set_entry_def
      split: option.split postref.split)

lemma deref_map_Some: "deref_map s (Some a) = GoMap (heap_maps s a)"
  by (simp add: deref_map_def)

lemma heap_maps_set_entry:
  "heap_maps (set_entry a k v s) b = (if b = a then AList.update k v (heap_maps s a) else heap_maps s b)"
  by (simp add: set_entry_def)

lemma deref_map_set_entry_same:
  "deref_map (set_entry a k v s) (Some a) = GoMap (AList.update k v (heap_maps s a))"
  by (simp add: deref_map_def set_entry_def)

text \<open>Steps that leave the memory as it is, and their composition.\<close>

lemma ends_in_single: "ends_in {(r, s)} s"
  by (simp add: ends_in_def)

lemma ends_in_image: "S \<noteq> {} \<Longrightarrow> ends_in ((\<lambda>x. (g x, s)) ` S) s"
  by (simp add: ends_in_def)

lemma ends_in_UN:
  "S \<noteq> {} \<Longrightarrow> (\<And>x. x \<in> S \<Longrightarrow> ends_in (F x) s) \<Longrightarrow> ends_in (\<Union>x\<in>S. F x) s"
  unfolding ends_in_def by fast

lemma ends_in_case:
  "(\<And>y. x = Inr y \<Longrightarrow> ends_in (F y) s) \<Longrightarrow>
   ends_in (case x of Inl e \<Rightarrow> {(Inl e, s)} | Inr y \<Rightarrow> F y) s"
  by (cases x) (simp_all add: ends_in_single)

lemma ends_in_then:
  assumes "ends_in (m s) s" and "\<And>x. ends_in (f x s) s"
  shows "ends_in (then_step m f s) s"
proof -
  have "then_step m f s = (\<Union>x\<in>m s. case fst x of Inl e \<Rightarrow> {(Inl e, s)} | Inr y \<Rightarrow> f y s)"
    using assms(1) unfolding then_step_def ends_in_def
    by (intro SUP_cong refl) (auto split: sum.split)
  moreover have "ends_in (\<Union>x\<in>m s. case fst x of Inl e \<Rightarrow> {(Inl e, s)} | Inr y \<Rightarrow> f y s) s"
    using assms(1) by (intro ends_in_UN ends_in_case assms(2)) (simp add: ends_in_def)
  ultimately show ?thesis by simp
qed

lemma ends_in_steps:
  "ends_in (return_step x s) s" "ends_in (pure_step r s) s" "ends_in (reading f p s) s"
  "ends_in (load_step a s) s" "ends_in (index_step a k s) s" "ends_in (range_step a s) s"
  "ends_in (newElement_step tg lbl name p a s) s"
  by (simp_all add: return_step_def pure_step_def reading_def load_step_def index_step_def
      range_step_def newElement_step_eq ends_in_single ends_in_image range_orders_nonempty)

lemma ends_in_render:
  "(\<And>e'. render e' \<noteq> {}) \<Longrightarrow> ends_in (render_step render e a s) s"
  by (simp add: render_step_def ends_in_image)

lemma ends_in_case_prod:
  "(\<And>a b. ends_in (f a b s) s) \<Longrightarrow> ends_in ((case x of (a, b) \<Rightarrow> f a b) s) s"
  by (cases x) simp

lemmas ends_in_intros = ends_in_then ends_in_steps ends_in_render ends_in_case_prod
  domElementSelfClose_nonempty domElement_nonempty domElementWithChildrenSelect_nonempty
  domElementWithChildrenCheckbox_nonempty

lemma Input_mem_ends: "ends_in (Input_mem fieldName p attrs s) s"
  unfolding Input_mem_def by (intro ends_in_intros)

lemma Textarea_mem_ends: "ends_in (Textarea_mem fieldName p attrs s) s"
  unfolding Textarea_mem_def by (intro ends_in_intros)

lemma Timestamp_mem_ends: "ends_in (Timestamp_mem fieldName p attrs s) s"
  unfolding Timestamp_mem_def by (intro ends_in_intros)

lemma File_mem_ends: "ends_in (File_mem fieldName p attrs s) s"
  unfolding File_mem_def by (intro ends_in_intros)

lemma Tags_mem_ends: "ends_in (Tags_mem fieldName p attrs s) s"
  unfolding Tags_mem_def by (intro ends_in_intros)

text \<open>Richtext, Select and Checkbox: the memory after the assignments, which is also the
  memory of every panic raised after them.\<close>

lemma Richtext_mem_nil: "Richtext_mem fieldName p None s = {(Inl RuntimePanic, s)}"
  by (simp add: Richtext_mem_def then_step_index then_step_assign)

lemma Richtext_mem_ends:
  "ends_in (Richtext_mem fieldName p (Some a) s)
     (set_entry a ''id'' (''richtext-'' @ fieldName)
        (set_entry a ''class'' (''richtext '' @ fieldName) s))"
  unfolding Richtext_mem_def then_step_index then_step_assign option.case
  by (intro ends_in_intros)

lemma Select_mem_nil: "ends_in (Select_mem fieldName p None options s) s"
  unfolding Select_mem_def then_step_reading then_step_assign option.case
  by (intro ends_in_case ends_in_single)

lemma Select_mem_ends:
  "ends_in (Select_mem fieldName p (Some a) options s)
     (if isl (valueFromStructField fieldName (deref_post s p)) then s
      else set_entry a ''class'' ''browser-default'' s)"
proof (cases "valueFromStructField fieldName (deref_post s p)")
  case (Inl e)
  then show ?thesis
    by (simp add: Select_mem_def then_step_reading ends_in_single)
next
  case (Inr fv)
  have "ends_in (Select_mem fieldName p (Some a) options s)
          (set_entry a ''class'' ''browser-default'' s)"
    unfolding Select_mem_def then_step_reading Inr sum.case then_step_assign option.case
    by (intro ends_in_intros)
  then show ?thesis by (simp add: Inr)
qed

lemma Checkbox_mem_nil: "Checkbox_mem fieldName p None options s = {(Inl RuntimePanic, s)}"
  by (simp add: Checkbox_mem_def then_step_assign)

lemma Checkbox_mem_ends:
  "ends_in (Checkbox_mem fieldName p (Some a) options s)
     (set_entry a ''class'' ''input-field col s12'' s)"
  unfolding Checkbox_mem_def then_step_assign option.case
  by (intro ends_in_intros)

text \<open>The results of the calls of the section on the rendering calls are the outcomes of
  the steps, with the memory forgotten but for the caller's map.\<close>

lemma newElement_Attrs_update: "newElement tg lbl n p a = Inr e \<Longrightarrow> e\<lparr>Attrs := a\<rparr> = e"
  by (auto simp: newElement_def split: sum.splits)

lemma forget_simps:
  "forget r (Inl e, s) = Inl e" "forget r (Inr out, s) = Inr (out, deref_map s r)"
  by (simp_all add: forget_def)

lemma Input_mem_forget:
  "forget attrs ` Input_mem fieldName p attrs s =
     Input fieldName (deref_post s p) (deref_map s attrs)"
  by (simp add: Input_mem_def Input_def then_step_simps render_step_def image_image
      forget_simps newElement_Attrs_update split: sum.split)

lemma Textarea_mem_forget:
  "forget attrs ` Textarea_mem fieldName p attrs s =
     Textarea fieldName (deref_post s p) (deref_map s attrs)"
  by (simp add: Textarea_mem_def Textarea_def then_step_simps render_step_def image_image
      forget_simps newElement_Attrs_update split: sum.split)

lemma Timestamp_mem_forget:
  "forget attrs ` Timestamp_mem fieldName p attrs s =
     Timestamp fieldName (deref_post s p) (deref_map s attrs)"
  by (simp add: Timestamp_mem_def Timestamp_def then_step_simps render_step_def image_image
      forget_simps split: sum.split)

lemma File_mem_forget:
  "forget attrs ` File_mem fieldName p attrs s =
     File fieldName (deref_post s p) (deref_map s attrs)"
  by (simp add: File_mem_def File_def then_step_simps return_step_def
      forget_simps split: sum.split)

lemma Tags_mem_forget:
  "forget attrs ` Tags_mem fieldName p attrs s =
     Tags fieldName (deref_post s p) (deref_map s attrs)"
  by (simp add: Tags_mem_def Tags_def then_step_simps return_step_def
      forget_simps split: sum.split prod.split)

lemma Richtext_mem_forget:
  "forget attrs ` Richtext_mem fieldName p attrs s =
     Richtext fieldName (deref_post s p) (deref_map s attrs)"
proof (cases attrs)
  case None
  then show ?thesis
    by (simp add: Richtext_mem_nil Richtext_def forget_simps deref_map_def)
next
  case (Some a)
  show ?thesis
    unfolding Some
    by (simp add: Richtext_mem_def Richtext_def then_step_simps render_step_def image_image
        return_step_def forget_simps deref_set_entry(1) deref_map_set_entry_same
        deref_map_Some heap_maps_set_entry UNION_singleton_eq_range
        split: sum.split)
qed

lemma Select_mem_forget:
  assumes "options \<noteq> attrs \<or> attrs = None"
  shows "forget attrs ` Select_mem fieldName p attrs options s =
     Select fieldName (deref_post s p) (deref_map s attrs) (deref_map s options)"
proof (cases attrs)
  case None
  then show ?thesis
    by (simp add: Select_mem_def Select_def then_step_simps forget_simps deref_map_def
        split: sum.split)
next
  case (Some a)
  with assms have o: "deref_map (set_entry a k v s) options = deref_map s options" for k v
    by (simp add: deref_set_entry)
  have n: "newElement tg lbl n q (GoMap al) = Inr e \<Longrightarrow> e\<lparr>Attrs := GoMap al\<rparr> = e"
    for tg lbl n q al e
    by (rule newElement_Attrs_update)
  show ?thesis
    unfolding Some
    by (simp add: Select_mem_def Select_def then_step_simps render_step_def image_image
        forget_simps deref_set_entry(1) deref_map_set_entry_same deref_map_Some
        heap_maps_set_entry o n image_UN split: sum.split)
qed

lemma Checkbox_mem_forget:
  assumes "options \<noteq> attrs \<or> attrs = None"
  shows "forget attrs ` Checkbox_mem fieldName p attrs options s =
     Checkbox fieldName (deref_post s p) (deref_map s attrs) (deref_map s options)"
proof (cases attrs)
  case None
  then show ?thesis
    by (simp add: Checkbox_mem_nil Checkbox_def forget_simps deref_map_def)
next
  case (Some a)
  with assms have o: "deref_map (set_entry a k v s) options = deref_map s options" for k v
    by (simp add: deref_set_entry)
  have n: "newElement tg lbl n q (GoMap al) = Inr e \<Longrightarrow> e\<lparr>Attrs := GoMap al\<rparr> = e"
    for tg lbl n q al e
    by (rule newElement_Attrs_update)
  show ?thesis
    unfolding Some
    by (simp add: Checkbox_mem_def Checkbox_def then_step_simps render_step_def image_image
        forget_simps deref_set_entry(1) deref_map_set_entry_same deref_map_Some
        heap_maps_set_entry o n image_UN sum.case_distrib [of "image (forget (Some a))"]
        split: sum.split cong: sum.case_cong)
qed

text \<open>
  Claim C4, as amended. Input, Textarea, Timestamp, File and Tags write nothing: each has
  an outcome, and in every outcome, a return or a panic, the memory (the content struct
  and every map) is as it was before the call. Richtext assigns the entries class and id
  of the map passed as attrs, Select and Checkbox assign its entry class; on a nil map
  the three panic at the assignment and the memory is as before. The assignment comes
  before the lookups that may panic (in Select, after the first read of the value of the
  field, which panics on a nil content), so that the map holds the assigned entries in
  every later outcome, also when the call panics. Nothing else is written: an
  assignment replaces the map at its address and leaves the structs and the maps at the
  other addresses as they are. With the memory forgotten but for the caller's map, the
  outcomes are the results of the section on the rendering calls (for Select and
  Checkbox, when attrs and options are not the same map).
\<close>

theorem memory_after_call:
  "ends_in (Input_mem fieldName p attrs s) s
   \<and> ends_in (Textarea_mem fieldName p attrs s) s
   \<and> ends_in (Timestamp_mem fieldName p attrs s) s
   \<and> ends_in (File_mem fieldName p attrs s) s
   \<and> ends_in (Tags_mem fieldName p attrs s) s
   \<and> ends_in (Richtext_mem fieldName p None s) s
   \<and> ends_in (Richtext_mem fieldName p (Some a) s)
         (set_entry a ''id'' (''richtext-'' @ fieldName)
            (set_entry a ''class'' (''richtext '' @ fieldName) s))
   \<and> ends_in (Select_mem fieldName p None options s) s
   \<and> ends_in (Select_mem fieldName p (Some a) options s)
         (if isl (valueFromStructField fieldName (deref_post s p)) then s
          else set_entry a ''class'' ''browser-default'' s)
   \<and> ends_in (Checkbox_mem fieldName p None options s) s
   \<and> ends_in (Checkbox_mem fieldName p (Some a) options s)
         (set_entry a ''class'' ''input-field col s12'' s)
   \<and> heap_structs (set_entry a k v s) = heap_structs s
   \<and> heap_maps (set_entry a k v s) = (heap_maps s)(a := AList.update k v (heap_maps s a))
   \<and> forget attrs ` Input_mem fieldName p attrs s =
       Input fieldName (deref_post s p) (deref_map s attrs)
   \<and> forget attrs ` Textarea_mem fieldName p attrs s =
       Textarea fieldName (deref_post s p) (deref_map s attrs)
   \<and> forget attrs ` Timestamp_mem fieldName p attrs s =
       Timestamp fieldName (deref_post s p) (deref_map s attrs)
   \<and> forget attrs ` File_mem fieldName p attrs s =
       File fieldName (deref_post s p) (deref_map s attrs)
   \<and> forget attrs ` Tags_mem fieldName p attrs s =
       Tags fieldName (deref_post s p) (deref_map s attrs)
   \<and> forget attrs ` Richtext_mem fieldName p attrs s =
       Richtext fieldName (deref_post s p) (deref_map s attrs)
   \<and> (options \<noteq> attrs \<or> attrs = None \<longrightarrow>
       forget attrs ` Select_mem fieldName p attrs options s =
       Select fieldName (deref_post s p) (deref_map s attrs) (deref_map s options))
   \<and> (options \<noteq> attrs \<or> attrs = None \<longrightarrow>
       forget attrs ` Checkbox_mem fieldName p attrs options s =
       Checkbox fieldName (deref_post s p) (deref_map s attrs) (deref_map s options))"
proof -
  have "ends_in (Input_mem fieldName p attrs s) s"
    by (rule Input_mem_ends)
  moreover have "ends_in (Textarea_mem fieldName p attrs s) s"
    by (rule Textarea_mem_ends)
  moreover have "ends_in (Timestamp_mem fieldName p attrs s) s"
    by (rule Timestamp_mem_ends)
  moreover have "ends_in (File_mem fieldName p attrs s) s"
    by (rule File_mem_ends)
  moreover have "ends_in (Tags_mem fieldName p attrs s) s"
    by (rule Tags_mem_ends)
  moreover have "ends_in (Richtext_mem fieldName p None s) s"
    unfolding Richtext_mem_nil by (rule ends_in_single)
  moreover have "ends_in (Richtext_mem fieldName p (Some a) s)
         (set_entry a ''id'' (''richtext-'' @ fieldName)
            (set_entry a ''class'' (''richtext '' @ fieldName) s))"
    by (rule Richtext_mem_ends)
  moreover have "ends_in (Select_mem fieldName p None options s) s"
    by (rule Select_mem_nil)
  moreover have "ends_in (Select_mem fieldName p (Some a) options s)
         (if isl (valueFromStructField fieldName (deref_post s p)) then s
          else set_entry a ''class'' ''browser-default'' s)"
    by (rule Select_mem_ends)
  moreover have "ends_in (Checkbox_mem fieldName p None options s) s"
    unfolding Checkbox_mem_nil by (rule ends_in_single)
  moreover have "ends_in (Checkbox_mem fieldName p (Some a) options s)
         (set_entry a ''class'' ''input-field col s12'' s)"
    by (rule Checkbox_mem_ends)
  moreover have "heap_structs (set_entry a k v s) = heap_structs s"
    by (simp add: set_entry_def)
  moreover have "heap_maps (set_entry a k v s) =
      (heap_maps s)(a := AList.update k v (heap_maps s a))"
    by (simp add: set_entry_def)
  moreover have "forget attrs ` Input_mem fieldName p attrs s =
       Input fieldName (deref_post s p) (deref_map s attrs)"
    by (rule Input_mem_forget)
  moreover have "forget attrs ` Textarea_mem fieldName p attrs s =
       Textarea fieldName (deref_post s p) (deref_map s attrs)"
    by (rule Textarea_mem_forget)
  moreover have "forget attrs ` Timestamp_mem fieldName p attrs s =
       Timestamp fieldName (deref_post s p) (deref_map s attrs)"
    by (rule Timestamp_mem_forget)
  moreover have "forget attrs ` File_mem fieldName p attrs s =
       File fieldName (deref_post s p) (deref_map s attrs)"
    by (rule File_mem_forget)
  moreover have "forget attrs ` Tags_mem fieldName p attrs s =
       Tags fieldName (deref_post s p) (deref_map s attrs)"
    by (rule Tags_mem_forget)
  moreover have "forget attrs ` Richtext_mem fieldName p attrs s =
       Richtext fieldName (deref_post s p) (deref_map s attrs)"
    by (rule Richtext_mem_forget)
  moreover have "options \<noteq> attrs \<or> attrs = None \<longrightarrow>
       forget attrs ` Select_mem fieldName p attrs options s =
       Select fieldName (deref_post s p) (deref_map s attrs) (deref_map s options)"
    by (rule impI) (rule Select_mem_forget)
  moreover have "options \<noteq> attrs \<or> attrs = None \<longrightarrow>
       forget attrs ` Checkbox_mem fieldName p attrs options s =
       Checkbox fieldName (deref_post s p) (deref_map s attrs) (deref_map s options)"
    by (rule impI) (rule Checkbox_mem_forget)
  ultimately show ?thesis
    by (intro conjI)
qed

text \<open>An instance, on the example memory. Select on a field that the struct does not
  have panics, and the map at address 0, empty before, holds the class in the memory
  that the panic leaves; the map at address 1 and the struct are as before. Input on the
  field Title returns and leaves the memory as it was.\<close>

theorem memory_after_call_witness:
  \<open>ends_in (Select_mem ''Missing'' (PtrRef 0) (Some 0) (Some 1) example_memory)
     (set_entry 0 ''class'' ''browser-default'' example_memory)
   \<and> (Inl (NoStructField ''Missing''), set_entry 0 ''class'' ''browser-default'' example_memory)
       \<in> Select_mem ''Missing'' (PtrRef 0) (Some 0) (Some 1) example_memory
   \<and> heap_maps example_memory 0 = []
   \<and> heap_maps (set_entry 0 ''class'' ''browser-default'' example_memory) 0 =
       [(''class'', ''browser-default'')]
   \<and> heap_maps (set_entry 0 ''class'' ''browser-default'' example_memory) 1 = []
   \<and> heap_structs (set_entry 0 ''class'' ''browser-default'' example_memory) 0 = example_fields
   \<and> ends_in (Input_mem ''Title'' (PtrRef 0) (Some 0) example_memory) example_memory
   \<and> (Inr ''<div class="input-field col s12"><input value="a&lt;b"  name="title" /></div>'',
       example_memory)
       \<in> Input_mem ''Title'' (PtrRef 0) (Some 0) example_memory
   \<and> forget (Some 0) ` Select_mem ''Title'' (PtrRef 0) (Some 0) (Some 1) example_memory =
       Select ''Title'' (Ptr example_fields) (GoMap []) (GoMap [])\<close>
proof -
  have d: "deref_post example_memory (PtrRef 0) = Ptr example_fields"
    "deref_map example_memory (Some 0) = GoMap []"
    "deref_map example_memory (Some 1) = GoMap []"
    by (simp_all add: deref_post_def deref_map_def example_memory_def)
  have v: "\<not> isl (valueFromStructField ''Missing'' (Ptr example_fields))"
    by (simp add: valueFromStructField_def Value_FieldByName_def FieldByName_def
        example_fields_def)
  have 1: "ends_in (Select_mem ''Missing'' (PtrRef 0) (Some 0) (Some 1) example_memory)
     (set_entry 0 ''class'' ''browser-default'' example_memory)"
  proof -
    note T = memory_after_call [where s = example_memory and p = "PtrRef 0" and a = 0
      and options = "Some 1" and attrs = "Some 0" and fieldName = "''Missing''"
      and k = "''class''" and v = "''browser-default''"]
    note S = T [THEN conjunct2, THEN conjunct2, THEN conjunct2, THEN conjunct2, THEN conjunct2, THEN conjunct2, THEN conjunct2, THEN conjunct2, THEN conjunct1]
    from S show ?thesis unfolding d by (simp only: v if_False)
  qed
  have 2: "(Inl (NoStructField ''Missing''),
        set_entry 0 ''class'' ''browser-default'' example_memory)
       \<in> Select_mem ''Missing'' (PtrRef 0) (Some 0) (Some 1) example_memory"
    by (simp add: Select_mem_def then_step_simps deref_set_entry(1) d newElement_def
        tagNameFromStructField_def valueFromStructField_def Value_FieldByName_def
        FieldByName_def example_fields_def)
  note T = memory_after_call [where s = example_memory and p = "PtrRef 0" and a = 0
      and options = "Some 1" and attrs = "Some 0" and fieldName = "''Title''"
      and k = "''class''" and v = "''browser-default''"]
  have 3: "heap_maps example_memory 0 = []"
    "heap_maps (set_entry 0 ''class'' ''browser-default'' example_memory) 0 =
       [(''class'', ''browser-default'')]"
    "heap_maps (set_entry 0 ''class'' ''browser-default'' example_memory) 1 = []"
    "heap_structs (set_entry 0 ''class'' ''browser-default'' example_memory) 0 = example_fields"
    unfolding T [THEN conjunct2, THEN conjunct2, THEN conjunct2, THEN conjunct2, THEN conjunct2, THEN conjunct2, THEN conjunct2, THEN conjunct2, THEN conjunct2, THEN conjunct2, THEN conjunct2, THEN conjunct1]
      T [THEN conjunct2, THEN conjunct2, THEN conjunct2, THEN conjunct2, THEN conjunct2, THEN conjunct2, THEN conjunct2, THEN conjunct2, THEN conjunct2, THEN conjunct2, THEN conjunct2, THEN conjunct2, THEN conjunct1]
    by (simp_all add: example_memory_def)
  note 4 = T [THEN conjunct1]
  have 5: \<open>(Inr ''<div class="input-field col s12"><input value="a&lt;b"  name="title" /></div>'',
       example_memory)
       \<in> Input_mem ''Title'' (PtrRef 0) (Some 0) example_memory\<close>
    by (simp add: Input_mem_def then_step_simps render_step_def d newElement_def
        tagNameFromStructField_def valueFromStructField_def Value_FieldByName_def
        FieldByName_def Lookup_def example_fields_def domElementSelfClose_def
        domElementSelfClose_in_def range_orders_def attr_writes_def index_def
        EscapeString_def escape_char_def)
  have "Some (1::nat) \<noteq> Some 0 \<or> Some (0::nat) = None" by simp
  from T [THEN conjunct2, THEN conjunct2, THEN conjunct2, THEN conjunct2, THEN conjunct2, THEN conjunct2, THEN conjunct2, THEN conjunct2, THEN conjunct2, THEN conjunct2, THEN conjunct2, THEN conjunct2, THEN conjunct2, THEN conjunct2, THEN conjunct2, THEN conjunct2, THEN conjunct2, THEN conjunct2, THEN conjunct2, THEN conjunct1, rule_format, OF this]
  have 6: "forget (Some 0) ` Select_mem ''Title'' (PtrRef 0) (Some 0) (Some 1) example_memory =
       Select ''Title'' (Ptr example_fields) (GoMap []) (GoMap [])"
    unfolding d .
  from 1 2 3 4 5 6 show ?thesis by (intro conjI)
qed

text \<open>
  Claim C4 as stated fails. Select, called with an empty attribute map, returns with the
  entry class assigned in the caller's map. Input renders the entries of the map it is
  given, so the same Input call renders differently when the map was passed to Select
  before.
\<close>

theorem select_mutates_counterexample:
  \<open>Inr (''<div class="input-field col s6"><select class="browser-default"  name="title" >'' @
        ''<div class="input-field col s12"><option disabled="true" selected="true"  name="" >'' @
        ''Select an option...</option></div>'' @
        ''<div class="input-field col s12"><option value=""  name="" >None</option></div>'' @
        ''</select></div>'',
        GoMap [(''class'', ''browser-default'')])
     \<in> Select ''Title'' (Ptr example_fields) (GoMap []) (GoMap [])
   \<and> GoMap [(''class'', ''browser-default'')] \<noteq> GoMap []
   \<and> Input ''Title'' (Ptr example_fields) (GoMap []) =
       {Inr (''<div class="input-field col s12"><input value="a&lt;b"  name="title" /></div>'',
             GoMap [])}
   \<and> Input ''Title'' (Ptr example_fields) (GoMap [(''class'', ''browser-default'')]) =
       {Inr (''<div class="input-field col s12"><input value="a&lt;b" '' @
             ''class="browser-default"  name="title" /></div>'',
             GoMap [(''class'', ''browser-default'')])}\<close>
  by (simp add: Select_def Input_def newElement_def tagNameFromStructField_def
      valueFromStructField_def Value_FieldByName_def FieldByName_def Lookup_def example_fields_def
      domElementWithChildrenSelect_def domElementWithChildrenSelect_in_def
      domElement_def domElement_in_def domElementSelfClose_def domElementSelfClose_in_def
      Select_cta_def Select_reset_def range_orders_def attr_writes_def index_def
      EscapeString_def escape_char_def)

section \<open>Calls with one result\<close>

lemma deterministic_single: "deterministic {x}"
  by (simp add: deterministic_def)

lemma deterministic_image_single: "S = {s} \<Longrightarrow> deterministic (f ` S)"
  by (simp add: deterministic_def)

lemma deterministic_case:
  "(\<And>y. x = Inr y \<Longrightarrow> deterministic (F y)) \<Longrightarrow>
   deterministic (case x of Inl e \<Rightarrow> {Inl e} | Inr y \<Rightarrow> F y)"
  by (cases x) (simp_all add: deterministic_single)

lemma newElement_Attrs: "newElement tg lbl fieldName p attrs = Inr e \<Longrightarrow> Attrs e = attrs"
  by (auto simp: newElement_def split: sum.splits)

lemma Input_deterministic:
  assumes "length (entries attrs) \<le> 1"
  shows "deterministic (Input fieldName p attrs)"
  unfolding Input_def
proof (intro deterministic_case)
  fix e assume "newElement ''input'' (index attrs ''label'') fieldName p attrs = Inr e"
  then have "Attrs e = attrs" by (rule newElement_Attrs)
  then have "domElementSelfClose e = {domElementSelfClose_in (entries attrs) e}"
    using range_orders_small [OF assms] by (simp add: domElementSelfClose_def)
  then show "deterministic ((\<lambda>out. Inr (out, attrs)) ` domElementSelfClose e)"
    by (rule deterministic_image_single)
qed

lemma Textarea_deterministic:
  assumes "length (entries attrs) \<le> 1"
  shows "deterministic (Textarea fieldName p attrs)"
  unfolding Textarea_def
proof (intro deterministic_case)
  fix e assume "newElement ''textarea'' (index attrs ''label'') fieldName p attrs = Inr e"
  then have "Attrs e = attrs" by (rule newElement_Attrs)
  then have "domElement e = {domElement_in (entries attrs) e}"
    using range_orders_small [OF assms] by (simp add: domElement_def)
  then show "deterministic ((\<lambda>out. Inr (out, attrs)) ` domElement e)"
    by (rule deterministic_image_single)
qed

lemma Timestamp_deterministic:
  assumes "length (entries attrs) \<le> 1"
  shows "deterministic (Timestamp fieldName p attrs)"
  unfolding Timestamp_def
proof (intro deterministic_case)
  fix val n name
  let ?e = "\<lparr>TagName = ''input'', Attrs = attrs, Name = name, label = index attrs ''label'',
             data = if n = 0 then [] else Sprintf_d (sint n), viewBuf = []\<rparr>"
  have "domElementSelfClose ?e = {domElementSelfClose_in (entries attrs) ?e}"
    using range_orders_small [OF assms] by (simp add: domElementSelfClose_def)
  then show "deterministic ((\<lambda>out. Inr (out, attrs)) ` domElementSelfClose ?e)"
    by (rule deterministic_image_single)
qed

lemma File_deterministic: "deterministic (File fieldName p attrs)"
  unfolding File_def by (intro deterministic_case deterministic_single)

lemma Tags_deterministic: "deterministic (Tags fieldName p attrs)"
  unfolding Tags_def
  by (intro deterministic_case) (simp add: deterministic_single split: prod.split)

text \<open>
  Claim C5, as amended. File and Tags, which range over no map, have one result at most
  for given arguments. Input, Textarea and Timestamp have one result at most when the
  attribute map has no more than one entry. (With two entries or more in a map that a
  call ranges over, the attribute pairs are written in the order of the range loop, which
  Go leaves unspecified; the wrapper of Richtext, the call to action of Select and the
  inputs of Checkbox always have two attributes or more.)
\<close>

theorem calls_deterministic:
  "deterministic (File fieldName p attrs)
   \<and> deterministic (Tags fieldName p attrs)
   \<and> (length (entries attrs) \<le> 1 \<longrightarrow>
        deterministic (Input fieldName p attrs) \<and> deterministic (Textarea fieldName p attrs) \<and>
        deterministic (Timestamp fieldName p attrs))"
  by (intro conjI impI File_deterministic Tags_deterministic Input_deterministic
      Textarea_deterministic Timestamp_deterministic)

text \<open>An instance: Input on the example struct with the one attribute label.\<close>

theorem calls_deterministic_witness:
  \<open>length (entries (GoMap [(''label'', ''Title'')])) \<le> 1
   \<and> deterministic (Input ''Title'' (Ptr example_fields) (GoMap [(''label'', ''Title'')]))
   \<and> Inr (''<div class="input-field col s12">'' @
           ''<label class="active" for="Title">Title</label>'' @
           ''<input value="a&lt;b" label="Title"  name="title" /></div>'',
           GoMap [(''label'', ''Title'')])
       \<in> Input ''Title'' (Ptr example_fields) (GoMap [(''label'', ''Title'')])\<close>
proof -
  have len: "length (entries (GoMap [(''label'', ''Title'')])) \<le> 1" by simp
  have "deterministic (Input ''Title'' (Ptr example_fields) (GoMap [(''label'', ''Title'')]))"
    using calls_deterministic [where fieldName = "''Title''" and p = "Ptr example_fields"
        and attrs = "GoMap [(''label'', ''Title'')]"] len
    by blast
  moreover have \<open>Inr (''<div class="input-field col s12">'' @
           ''<label class="active" for="Title">Title</label>'' @
           ''<input value="a&lt;b" label="Title"  name="title" /></div>'',
           GoMap [(''label'', ''Title'')])
       \<in> Input ''Title'' (Ptr example_fields) (GoMap [(''label'', ''Title'')])\<close>
    by (simp add: Input_def newElement_def tagNameFromStructField_def
      valueFromStructField_def Value_FieldByName_def FieldByName_def Lookup_def example_fields_def
      domElementSelfClose_def domElementSelfClose_in_def
      range_orders_def attr_writes_def index_def EscapeString_def escape_char_def)
  ultimately show ?thesis using len by blast
qed

text \<open>
  Claim C5 as stated fails. With the two attributes label and type, Input has two
  results for the same arguments: the loop over the map may write either attribute first.
\<close>

theorem input_order_counterexample:
  \<open>Inr (''<div class="input-field col s12">'' @
         ''<label class="active" for="Title">Title</label>'' @
         ''<input value="a&lt;b" label="Title" type="text"  name="title" /></div>'',
         GoMap [(''label'', ''Title''), (''type'', ''text'')])
     \<in> Input ''Title'' (Ptr example_fields) (GoMap [(''label'', ''Title''), (''type'', ''text'')])
   \<and> Inr (''<div class="input-field col s12">'' @
         ''<label class="active" for="Title">Title</label>'' @
         ''<input value="a&lt;b" type="text" label="Title"  name="title" /></div>'',
         GoMap [(''label'', ''Title''), (''type'', ''text'')])
     \<in> Input ''Title'' (Ptr example_fields) (GoMap [(''label'', ''Title''), (''type'', ''text'')])
   \<and> ''<input value="a&lt;b" label="Title" type="text"  name="title" /></div>'' \<noteq>
       ''<input value="a&lt;b" type="text" label="Title"  name="title" /></div>''
   \<and> \<not> deterministic
         (Input ''Title'' (Ptr example_fields) (GoMap [(''label'', ''Title''), (''type'', ''text'')]))\<close>
proof -
  have 1: \<open>Input ''Title'' (Ptr example_fields) (GoMap [(''label'', ''Title''), (''type'', ''text'')]) =
    {Inr (''<div class="input-field col s12">'' @
         ''<label class="active" for="Title">Title</label>'' @
         ''<input value="a&lt;b" label="Title" type="text"  name="title" /></div>'',
         GoMap [(''label'', ''Title''), (''type'', ''text'')]),
     Inr (''<div class="input-field col s12">'' @
         ''<label class="active" for="Title">Title</label>'' @
         ''<input value="a&lt;b" type="text" label="Title"  name="title" /></div>'',
         GoMap [(''label'', ''Title''), (''type'', ''text'')])}\<close>
    by (simp add: Input_def newElement_def tagNameFromStructField_def
      valueFromStructField_def Value_FieldByName_def FieldByName_def Lookup_def example_fields_def
      domElementSelfClose_def domElementSelfClose_in_def
      range_orders_def attr_writes_def index_def EscapeString_def escape_char_def)
  show ?thesis unfolding 1 by (simp add: deterministic_def)
qed

section \<open>The value of a string field\<close>

lemma Timestamp_string_panics:
  "FieldByName fs name = Some f \<Longrightarrow> Val f = VString s \<Longrightarrow>
   Timestamp name (Ptr fs) attrs = {Inl RuntimePanic}"
  by (simp add: Timestamp_def value_found)

text \<open>
  Claim C6, as amended. For a string-valued field with a json tag, the value in the
  markup is read from the struct at the call: Input writes the escaped value of the
  field as the value attribute, Textarea writes it as the content of the element,
  Richtext writes it as the value of its hidden input, and File writes the value of the
  field, as it is, as the value attribute of its hidden input. Timestamp renders no
  string-valued field: it panics on one.
\<close>

theorem string_field_value:
  assumes "FieldByName fs fieldName = Some f" and "Lookup (Tag f) ''json'' = Some t"
    and "Val f = VString s"
    and "a2 = GoMap (AList.update ''id'' (''richtext-'' @ fieldName)
                 (AList.update ''class'' (''richtext '' @ fieldName) al))"
  shows \<open>valueFromStructField fieldName (Ptr fs) = Inr (Value (PkgPath f \<noteq> []) (VString s))
    \<and> Value_String (Value (PkgPath f \<noteq> []) (VString s)) = s
    \<and> Input fieldName (Ptr fs) attrs =
        (\<lambda>kvs. Inr (''<div class="input-field col s12">'' @
                     active_label (index attrs ''label'') @
                     ''<input value="'' @ EscapeString s @ ''" '' @
                     attr_writes kvs @ '' name="'' @ t @ ''" /></div>'', attrs)) `
        range_orders attrs
    \<and> Textarea fieldName (Ptr fs) attrs =
        (\<lambda>kvs. Inr (''<div class="input-field col s12">'' @
                     active_label (index attrs ''label'') @
                     ''<textarea '' @ attr_writes kvs @ '' name="'' @ t @ ''" >'' @
                     EscapeString s @ ''</textarea></div>'', attrs)) `
        range_orders attrs
    \<and> File fieldName (Ptr fs) attrs =
        {Inr ((File_tmpl_0 @ t @ File_tmpl_1 @ index attrs ''label'' @ File_tmpl_2 @
               index attrs ''label'' @ File_tmpl_3 @ t @ File_tmpl_4 @ t @
               File_tmpl_5 @ s @ File_tmpl_6) @
              (File_script_0 @ t @ File_script_1 @ t @ File_script_2 @ t @
               File_script_3 @ t @ File_script_4 @ t @ File_script_5), attrs)}
    \<and> File_tmpl_4 @ t @ File_tmpl_5 @ s @ File_tmpl_6 =
        ''" type="hidden" name="'' @ t @ ''" value="'' @ s @ ''" />\<newline>'' @ tabs 2 @ ''</div>''
    \<and> Richtext fieldName (Ptr fs) (GoMap al) =
        (\<lambda>kvs. Inr (''<div class="iso-texteditor input-field col s12"><label>'' @
                     index (GoMap al) ''label'' @ ''</label>'' @
                     ''<div class="input-field col s12"><div '' @ attr_writes kvs @
                     '' name="" ></div></div>'' @
                     ''<input type="hidden" name="'' @ t @ ''" class="richtext-value '' @
                     fieldName @ ''" value="'' @ EscapeString s @ ''"/>'' @
                     ''</div>'' @
                     Richtext_script_0 @ fieldName @ Richtext_script_1 @ fieldName @
                     Richtext_script_2 @ index (GoMap al) ''placeholder'' @ Richtext_script_3,
                     a2)) `
        range_orders a2
    \<and> Timestamp fieldName (Ptr fs) attrs = {Inl RuntimePanic}\<close>
proof -
  note found = assms(1,2)
  have v: "Value_String (Value (PkgPath f \<noteq> []) (Val f)) = s"
    by (simp add: assms(3))
  have \<open>File_tmpl_4 @ t @ File_tmpl_5 @ s @ File_tmpl_6 =
        ''" type="hidden" name="'' @ t @ ''" value="'' @ s @ ''" />\<newline>'' @ tabs 2 @ ''</div>''\<close>
    by (simp add: File_tmpl_4_def File_tmpl_5_def File_tmpl_6_def)
  moreover have "valueFromStructField fieldName (Ptr fs) = Inr (Value (PkgPath f \<noteq> []) (VString s))"
    using value_found [OF assms(1)] by (simp add: assms(3))
  moreover have "Value_String (Value (PkgPath f \<noteq> []) (VString s)) = s"
    by simp
  ultimately show ?thesis
    using Input_shape [OF found] Textarea_shape [OF found] File_found [OF found]
      Richtext_shape [OF found assms(4)] Timestamp_string_panics [OF assms(1,3)]
    unfolding v
    by (intro conjI)
qed

text \<open>An instance: the field Title of the example struct, whose value is \<open>a<b\<close>, in the
  markup of Textarea.\<close>

theorem string_field_value_witness:
  \<open>FieldByName example_fields ''Title'' =
     Some \<lparr>FieldName = ''Title'', PkgPath = [], Tag = [(''json'', ''title'')],
           Val = VString ''a<b''\<rparr>
   \<and> Textarea ''Title'' (Ptr example_fields) (GoMap []) =
       {Inr (''<div class="input-field col s12"><textarea  name="title" >a&lt;b</textarea></div>'',
             GoMap [])}\<close>
proof -
  note T = string_field_value [OF example_Title example_Title_tag example_Title_val refl,
      where attrs = "GoMap []"]
  from T have \<open>Textarea ''Title'' (Ptr example_fields) (GoMap []) =
       {Inr (''<div class="input-field col s12"><textarea  name="title" >a&lt;b</textarea></div>'',
             GoMap [])}\<close>
    unfolding range_orders_def
    by (simp add: active_label_def index_def EscapeString_def escape_char_def attr_writes_def)
  with example_Title show ?thesis by simp
qed

text \<open>
  Claim C6 as stated fails. The field Title of the example struct is string-valued and
  has a json tag; Timestamp has no markup for it, only a panic, and the value attribute
  that Input writes is the escaped text, which differs from the value of the field.
\<close>

theorem string_field_value_counterexample:
  \<open>valueFromStructField ''Title'' (Ptr example_fields) = Inr (Value False (VString ''a<b''))
   \<and> tagNameFromStructField ''Title'' (Ptr example_fields) = Inr ''title''
   \<and> Timestamp ''Title'' (Ptr example_fields) (GoMap []) = {Inl RuntimePanic}
   \<and> Input ''Title'' (Ptr example_fields) (GoMap []) =
       {Inr (''<div class="input-field col s12"><input value="a&lt;b"  name="title" /></div>'',
             GoMap [])}
   \<and> ''a&lt;b'' \<noteq> ''a<b''\<close>
  by (simp add: Timestamp_def Input_def newElement_def tagNameFromStructField_def
      valueFromStructField_def Value_FieldByName_def FieldByName_def Lookup_def example_fields_def
      domElementSelfClose_def domElementSelfClose_in_def
      range_orders_def attr_writes_def index_def EscapeString_def escape_char_def)

section \<open>The options of Select\<close>

text \<open>
  Claim C7. For a struct with the field and a json tag, and an attribute map that is
  not nil, every result of Select is the select element around the markup of its
  children, in this order: the call to action, the reset, and one option per entry of
  the options map, in the order in which the loop visits the entries. The call to action
  is disabled and selected and the reset has the empty value, whatever the field holds.
  The option of an entry has the attribute selected exactly when the key of the entry is
  the string value of the field.
\<close>

theorem select_options:
  assumes "FieldByName fs fieldName = Some f" and "Lookup (Tag f) ''json'' = Some t"
    and "fieldVal = Value_String (Value (PkgPath f \<noteq> []) (Val f))"
    and "a1 = GoMap (AList.update ''class'' ''browser-default'' al)"
  shows \<open>Select fieldName (Ptr fs) (GoMap al) options =
        (\<Union>okvs\<in>range_orders options. \<Union>akvs\<in>range_orders a1.
           (\<lambda>cs. Inr (''<div class="input-field col s6"><select '' @ attr_writes akvs @
                       '' name="'' @ t @ ''" >'' @ concat cs @ ''</select>'' @
                       (if index (GoMap al) ''label'' \<noteq> []
                        then ''<label class="active">'' @ index (GoMap al) ''label'' @ ''</label>''
                        else []) @
                       ''</div>'', a1)) `
           choices (map domElement
             ([Select_cta, Select_reset] @ map (Select_opt fieldVal) okvs)))
    \<and> (cs \<in> choices (map domElement ([Select_cta, Select_reset] @ map (Select_opt fieldVal) okvs))
         \<longleftrightarrow> list_all2 (\<lambda>c e. c \<in> domElement e) cs
               ([Select_cta, Select_reset] @ map (Select_opt fieldVal) okvs))
    \<and> domElement Select_cta =
        {''<div class="input-field col s12"><option disabled="true" selected="true"  name="" >'' @
         ''Select an option...</option></div>'',
         ''<div class="input-field col s12"><option selected="true" disabled="true"  name="" >'' @
         ''Select an option...</option></div>''}
    \<and> domElement Select_reset =
        {''<div class="input-field col s12"><option value=""  name="" >None</option></div>''}
    \<and> Attrs (Select_opt fieldVal (k, shown)) =
        GoMap (if k = fieldVal then [(''value'', k), (''selected'', ''true'')]
               else [(''value'', k)])
    \<and> domElement (Select_opt fieldVal (k, shown)) =
        (if k = fieldVal then
           {''<div class="input-field col s12"><option value="'' @ k @
            ''" selected="true"  name="" >'' @ EscapeString shown @ ''</option></div>'',
            ''<div class="input-field col s12"><option selected="true" value="'' @ k @
            ''"  name="" >'' @ EscapeString shown @ ''</option></div>''}
         else
           {''<div class="input-field col s12"><option value="'' @ k @ ''"  name="" >'' @
            EscapeString shown @ ''</option></div>''})\<close>
proof -
  have \<open>domElement (Select_opt fieldVal (k, shown)) =
        (if k = fieldVal then
           {''<div class="input-field col s12"><option value="'' @ k @
            ''" selected="true"  name="" >'' @ EscapeString shown @ ''</option></div>'',
            ''<div class="input-field col s12"><option selected="true" value="'' @ k @
            ''"  name="" >'' @ EscapeString shown @ ''</option></div>''}
         else
           {''<div class="input-field col s12"><option value="'' @ k @ ''"  name="" >'' @
            EscapeString shown @ ''</option></div>''})\<close>
    unfolding domElement_Select_opt by simp
  then show ?thesis
    using Select_shape [OF assms(1,2,4)] domElement_Select_cta domElement_Select_reset
      Select_opt_Attrs [of fieldVal k shown]
      choices_map_iff [of cs domElement "[Select_cta, Select_reset] @ map (Select_opt fieldVal) okvs"]
    unfolding assms(3)
    by (intro conjI)
qed

text \<open>An instance: the field Title of the example struct, whose value is \<open>a<b\<close>, with
  the one option of that key. One of the results of Select is written out.\<close>

theorem select_options_witness:
  \<open>FieldByName example_fields ''Title'' =
     Some \<lparr>FieldName = ''Title'', PkgPath = [], Tag = [(''json'', ''title'')],
           Val = VString ''a<b''\<rparr>
   \<and> Inr (''<div class="input-field col s6"><select class="browser-default"  name="title" >'' @
          ''<div class="input-field col s12"><option disabled="true" selected="true"  name="" >'' @
          ''Select an option...</option></div>'' @
          ''<div class="input-field col s12"><option value=""  name="" >None</option></div>'' @
          ''<div class="input-field col s12"><option value="a<b" selected="true"  name="" >'' @
          ''A&amp;B</option></div>'' @
          ''</select></div>'',
          GoMap [(''class'', ''browser-default'')])
       \<in> Select ''Title'' (Ptr example_fields) (GoMap []) (GoMap [(''a<b'', ''A&B'')])\<close>
proof -
  note T = select_options [OF example_Title example_Title_tag refl refl,
      where al = "[]" and options = "GoMap [(''a<b'', ''A&B'')]" and k = "''a<b''"
        and shown = "''A&B''"]
  note S = T [THEN conjunct1]
  note cta = T [THEN conjunct2, THEN conjunct2, THEN conjunct1]
  note reset = T [THEN conjunct2, THEN conjunct2, THEN conjunct2, THEN conjunct1]
  note opt = T [THEN conjunct2, THEN conjunct2, THEN conjunct2, THEN conjunct2, THEN conjunct2]
  have o: \<open>domElement (Select_opt ''a<b'' (''a<b'', ''A&B'')) =
      {''<div class="input-field col s12"><option value="a<b" selected="true"  name="" >'' @
       ''A&amp;B</option></div>'',
       ''<div class="input-field col s12"><option selected="true" value="a<b"  name="" >'' @
       ''A&amp;B</option></div>''}\<close>
    using opt by (simp add: EscapeString_def escape_char_def)
  have \<open>Inr (''<div class="input-field col s6"><select class="browser-default"  name="title" >'' @
          ''<div class="input-field col s12"><option disabled="true" selected="true"  name="" >'' @
          ''Select an option...</option></div>'' @
          ''<div class="input-field col s12"><option value=""  name="" >None</option></div>'' @
          ''<div class="input-field col s12"><option value="a<b" selected="true"  name="" >'' @
          ''A&amp;B</option></div>'' @
          ''</select></div>'',
          GoMap [(''class'', ''browser-default'')])
       \<in> Select ''Title'' (Ptr example_fields) (GoMap []) (GoMap [(''a<b'', ''A&B'')])\<close>
    unfolding S
    by (simp add: range_orders_def cta reset o index_def attr_writes_def)
  with example_Title show ?thesis by simp
qed

section \<open>Escaping of the value\<close>

lemma escape_char_no_special:
  \<open>set (escape_char c) \<inter> {CHR ''<'', CHR ''>'', CHR 0x22, CHR 0x27} = {}\<close>
  by (simp add: escape_char_def)

lemma concat_map_avoids:
  "(\<And>c. set (g c) \<inter> S = {}) \<Longrightarrow> set (concat (map g s)) \<inter> S = {}"
  by (induction s) (simp_all add: Int_Un_distrib2)

lemma EscapeString_no_special:
  \<open>set (EscapeString s) \<inter> {CHR ''<'', CHR ''>'', CHR 0x22, CHR 0x27} = {}\<close>
  unfolding EscapeString_def by (rule concat_map_avoids) (rule escape_char_no_special)

lemma escape_char_length: "1 \<le> length (escape_char c)"
  by (simp add: escape_char_def)

lemma escape_char_special_length:
  \<open>c \<in> {CHR ''&'', CHR 0x27, CHR ''<'', CHR ''>'', CHR 0x22} \<Longrightarrow> 1 < length (escape_char c)\<close>
  by (auto simp: escape_char_def)

lemma EscapeString_Cons_length:
  "length (EscapeString (c # s)) = length (escape_char c) + length (EscapeString s)"
  by (simp add: EscapeString_def)

lemma EscapeString_length: "length s \<le> length (EscapeString s)"
proof (induction s)
  case Nil
  then show ?case by simp
next
  case (Cons c s)
  with escape_char_length [of c] show ?case
    unfolding EscapeString_Cons_length by simp
qed

lemma EscapeString_longer:
  assumes "c \<in> set s" and \<open>c \<in> {CHR ''&'', CHR 0x27, CHR ''<'', CHR ''>'', CHR 0x22}\<close>
  shows "length s < length (EscapeString s)"
  using assms(1)
proof (induction s)
  case Nil
  then show ?case by simp
next
  case (Cons d s)
  show ?case
  proof (cases "d = c")
    case True
    with escape_char_special_length [OF assms(2)] EscapeString_length [of s] show ?thesis
      unfolding EscapeString_Cons_length by simp
  next
    case False
    with Cons have "length s < length (EscapeString s)" by simp
    with escape_char_length [of d] show ?thesis
      unfolding EscapeString_Cons_length by simp
  qed
qed

lemma EscapeString_changes:
  assumes "c \<in> set s" and \<open>c \<in> {CHR ''&'', CHR 0x27, CHR ''<'', CHR ''>'', CHR 0x22}\<close>
  shows "EscapeString s \<noteq> s"
proof
  assume "EscapeString s = s"
  then have "length (EscapeString s) = length s" by simp
  with EscapeString_longer [OF assms] show False by simp
qed

text \<open>
  Claim C8. Input, Textarea and Richtext pass the value of the field through
  html.EscapeString before they write it: as the value attribute, as the content of the
  textarea, as the value of the hidden input. The escaped text holds none of the
  characters \<open><\<close>, \<open>>\<close>, double quote and single quote, and it differs from the value
  whenever the value holds one of these or \<open>&\<close>.
\<close>

theorem value_is_escaped:
  assumes "FieldByName fs fieldName = Some f" and "Lookup (Tag f) ''json'' = Some t"
    and "v = Value_String (Value (PkgPath f \<noteq> []) (Val f))"
    and "a2 = GoMap (AList.update ''id'' (''richtext-'' @ fieldName)
                 (AList.update ''class'' (''richtext '' @ fieldName) al))"
  shows \<open>valueFromStructField fieldName (Ptr fs) = Inr (Value (PkgPath f \<noteq> []) (Val f))
    \<and> Input fieldName (Ptr fs) attrs =
        (\<lambda>kvs. Inr (''<div class="input-field col s12">'' @
                     active_label (index attrs ''label'') @
                     ''<input value="'' @ EscapeString v @ ''" '' @
                     attr_writes kvs @ '' name="'' @ t @ ''" /></div>'', attrs)) `
        range_orders attrs
    \<and> Textarea fieldName (Ptr fs) attrs =
        (\<lambda>kvs. Inr (''<div class="input-field col s12">'' @
                     active_label (index attrs ''label'') @
                     ''<textarea '' @ attr_writes kvs @ '' name="'' @ t @ ''" >'' @
                     EscapeString v @ ''</textarea></div>'', attrs)) `
        range_orders attrs
    \<and> Richtext fieldName (Ptr fs) (GoMap al) =
        (\<lambda>kvs. Inr (''<div class="iso-texteditor input-field col s12"><label>'' @
                     index (GoMap al) ''label'' @ ''</label>'' @
                     ''<div class="input-field col s12"><div '' @ attr_writes kvs @
                     '' name="" ></div></div>'' @
                     ''<input type="hidden" name="'' @ t @ ''" class="richtext-value '' @
                     fieldName @ ''" value="'' @ EscapeString v @ ''"/>'' @
                     ''</div>'' @
                     Richtext_script_0 @ fieldName @ Richtext_script_1 @ fieldName @
                     Richtext_script_2 @ index (GoMap al) ''placeholder'' @ Richtext_script_3,
                     a2)) `
        range_orders a2
    \<and> set (EscapeString v) \<inter> {CHR ''<'', CHR ''>'', CHR 0x22, CHR 0x27} = {}
    \<and> (c \<in> set v \<and> c \<in> {CHR ''&'', CHR 0x27, CHR ''<'', CHR ''>'', CHR 0x22} \<longrightarrow>
        EscapeString v \<noteq> v)
    \<and> EscapeString ''<a href="x">R&D</a>'' = ''&lt;a href=&#34;x&#34;&gt;R&amp;D&lt;/a&gt;''\<close>
proof -
  note found = assms(1,2)
  have \<open>EscapeString ''<a href="x">R&D</a>'' = ''&lt;a href=&#34;x&#34;&gt;R&amp;D&lt;/a&gt;''\<close>
    by (simp add: EscapeString_def escape_char_def)
  moreover have \<open>c \<in> set v \<and> c \<in> {CHR ''&'', CHR 0x27, CHR ''<'', CHR ''>'', CHR 0x22} \<longrightarrow>
        EscapeString v \<noteq> v\<close>
    using EscapeString_changes [of c v] by (intro impI) (elim conjE)
  ultimately show ?thesis
    using Input_shape [OF found] Textarea_shape [OF found] Richtext_shape [OF found assms(4)]
      value_found [OF assms(1)] EscapeString_no_special [of v]
    unfolding assms(3)
    by (intro conjI)
qed

text \<open>An instance: the field Title of the example struct, whose value holds \<open><\<close>.\<close>

theorem value_is_escaped_witness:
  \<open>FieldByName example_fields ''Title'' =
     Some \<lparr>FieldName = ''Title'', PkgPath = [], Tag = [(''json'', ''title'')],
           Val = VString ''a<b''\<rparr>
   \<and> CHR ''<'' \<in> set ''a<b''
   \<and> EscapeString ''a<b'' \<noteq> ''a<b''
   \<and> Input ''Title'' (Ptr example_fields) (GoMap []) =
       {Inr (''<div class="input-field col s12"><input value="a&lt;b"  name="title" /></div>'',
             GoMap [])}\<close>
proof -
  note T = value_is_escaped [OF example_Title example_Title_tag refl refl,
      where attrs = "GoMap []" and c = "CHR ''<''"]
  have s: \<open>CHR ''<'' \<in> set ''a<b''\<close>
    by simp
  note I = T [THEN conjunct2, THEN conjunct2, THEN conjunct2, THEN conjunct2, THEN conjunct2,
      THEN conjunct1]
  from I have "EscapeString ''a<b'' \<noteq> ''a<b''" by simp
  moreover from T have \<open>Input ''Title'' (Ptr example_fields) (GoMap []) =
       {Inr (''<div class="input-field col s12"><input value="a&lt;b"  name="title" /></div>'',
             GoMap [])}\<close>
    unfolding range_orders_def
    by (simp add: active_label_def index_def EscapeString_def escape_char_def attr_writes_def)
  ultimately show ?thesis using example_Title s by simp
qed

section \<open>The value of an integer field\<close>

text \<open>Timestamp reads the value with Value.Int before it looks up the name: a field that
  is not of a signed integer kind makes it panic there, and a field of a signed integer
  kind without a json key makes it panic in the lookup.\<close>

lemma Timestamp_not_int:
  "FieldByName fs name = Some f \<Longrightarrow> Value_Int (Value (PkgPath f \<noteq> []) (Val f)) = Inl e \<Longrightarrow>
   Timestamp name (Ptr fs) attrs = {Inl e}"
  by (simp add: Timestamp_def value_found)

lemma Timestamp_no_tag:
  "FieldByName fs name = Some f \<Longrightarrow> Val f = VInt tn n \<Longrightarrow> Lookup (Tag f) ''json'' = None \<Longrightarrow>
   Timestamp name (Ptr fs) attrs = {Inl (NoJsonTag name)}"
  using FieldByName_name [of fs name f]
  by (simp add: Timestamp_def value_found tagNameFromStructField_def)

text \<open>
  Claim C9, as amended. Timestamp renders the fields of a signed integer kind that carry
  a json key, and no other field. For such a field it writes an empty value attribute
  when the value of the field is 0, and otherwise the value in decimal: a minus sign for
  a negative value, and the decimal digits that denote its magnitude. For a field of a
  signed integer kind without a json key it panics with the message of the missing tag,
  and for a field of any other type, the unsigned integer types among them, it panics
  in Value.Int.
\<close>

theorem timestamp_value:
  assumes "FieldByName fs fieldName = Some f"
  shows \<open>Timestamp fieldName (Ptr fs) attrs =
        (case Val f of
           VInt tn n \<Rightarrow>
             (case Lookup (Tag f) ''json'' of
                None \<Rightarrow> {Inl (NoJsonTag fieldName)}
              | Some t \<Rightarrow>
                  (\<lambda>kvs. Inr (''<div class="input-field col s12">'' @
                               active_label (index attrs ''label'') @
                               ''<input value="'' @
                               (if n = 0 then [] else Sprintf_d (sint n)) @ ''" '' @
                               attr_writes kvs @ '' name="'' @ t @ ''" /></div>'', attrs)) `
                  range_orders attrs)
         | VString s \<Rightarrow> {Inl RuntimePanic}
         | VStrings tn xs \<Rightarrow> {Inl RuntimePanic}
         | VOther tn \<Rightarrow> {Inl RuntimePanic})
    \<and> Sprintf_d (sint n) =
        (if sint n < 0 then ''-'' @ digits (nat (- sint n)) else digits (nat (sint n)))
    \<and> decimal_value (digits m) = m
    \<and> set (digits m) \<subseteq> set ''0123456789''
    \<and> digits m \<noteq> []\<close>
proof -
  have "Sprintf_d (sint n) =
        (if sint n < 0 then ''-'' @ digits (nat (- sint n)) else digits (nat (sint n)))"
    by (simp only: Sprintf_d_def)
  moreover have \<open>Timestamp fieldName (Ptr fs) attrs =
        (case Val f of
           VInt tn n \<Rightarrow>
             (case Lookup (Tag f) ''json'' of
                None \<Rightarrow> {Inl (NoJsonTag fieldName)}
              | Some t \<Rightarrow>
                  (\<lambda>kvs. Inr (''<div class="input-field col s12">'' @
                               active_label (index attrs ''label'') @
                               ''<input value="'' @
                               (if n = 0 then [] else Sprintf_d (sint n)) @ ''" '' @
                               attr_writes kvs @ '' name="'' @ t @ ''" /></div>'', attrs)) `
                  range_orders attrs)
         | VString s \<Rightarrow> {Inl RuntimePanic}
         | VStrings tn xs \<Rightarrow> {Inl RuntimePanic}
         | VOther tn \<Rightarrow> {Inl RuntimePanic})\<close>
  proof (cases "Val f")
    case (VInt tn w)
    show ?thesis
    proof (cases "Lookup (Tag f) ''json''")
      case None
      show ?thesis
        unfolding VInt None gvalue.case option.case
        by (rule Timestamp_no_tag [OF assms VInt None])
    next
      case (Some t)
      show ?thesis
        unfolding VInt Some gvalue.case option.case
        by (rule Timestamp_shape [OF assms Some VInt])
    qed
  next
    case (VString s)
    show ?thesis
      unfolding VString gvalue.case
      by (rule Timestamp_not_int [OF assms]) (simp add: VString)
  next
    case (VStrings tn xs)
    show ?thesis
      unfolding VStrings gvalue.case
      by (rule Timestamp_not_int [OF assms]) (simp add: VStrings)
  next
    case (VOther tn)
    show ?thesis
      unfolding VOther gvalue.case
      by (rule Timestamp_not_int [OF assms]) (simp add: VOther)
  qed
  ultimately show ?thesis
    using decimal_value_digits [of m] digits_chars [of m] digits_nonempty [of m]
    by (intro conjI)
qed

text \<open>An instance: the field Timestamp of the example struct, whose value is 42.\<close>

theorem timestamp_value_witness:
  \<open>FieldByName example_fields ''Timestamp'' =
     Some \<lparr>FieldName = ''Timestamp'', PkgPath = [], Tag = [(''json'', ''timestamp'')],
           Val = VInt ''int64'' 42\<rparr>
   \<and> Timestamp ''Timestamp'' (Ptr example_fields) (GoMap []) =
       {Inr (''<div class="input-field col s12"><input value="42"  name="timestamp" /></div>'',
             GoMap [])}\<close>
proof -
  note T = timestamp_value [OF example_Timestamp, where attrs = "GoMap []", THEN conjunct1]
  from T have \<open>Timestamp ''Timestamp'' (Ptr example_fields) (GoMap []) =
       {Inr (''<div class="input-field col s12"><input value="42"  name="timestamp" /></div>'',
             GoMap [])}\<close>
    unfolding range_orders_def
    by (simp add: Lookup_def active_label_def index_def attr_writes_def Sprintf_d_def digits.simps)
  with example_Timestamp show ?thesis by simp
qed

text \<open>
  Claim C9 as the specification states it, for every integer-valued field, does not hold.
  A field of type uint64 holds an integer, and Timestamp renders nothing for it, whatever
  its value: Value.Int panics on a value of an unsigned kind. A field of type int64 with
  the value 0 and no json key is not rendered with an empty value either: the lookup of
  its name panics.
\<close>

theorem timestamp_unsigned_counterexample:
  "Timestamp ''Count''
     (Ptr [\<lparr>FieldName = ''Count'', PkgPath = [], Tag = [(''json'', ''count'')],
            Val = VOther ''uint64''\<rparr>]) (GoMap []) = {Inl RuntimePanic}
   \<and> Timestamp ''Timestamp''
       (Ptr [\<lparr>FieldName = ''Timestamp'', PkgPath = [], Tag = [],
              Val = VInt ''int64'' 0\<rparr>]) (GoMap []) = {Inl (NoJsonTag ''Timestamp'')}"
  by (simp add: Timestamp_def valueFromStructField_def Value_FieldByName_def FieldByName_def
      tagNameFromStructField_def Lookup_def)

section \<open>The empty field name\<close>

text \<open>
  Claim C10, as amended. For every argument \<open>p\<close>, also the nil interface,
  tagNameFromStructField returns the empty string for the empty field name, without
  looking at \<open>p\<close> and without a panic. So newElement, called with the empty name as
  Checkbox does for its wrapper, is not aborted by that lookup and gives the element the
  empty name. The wrapper is rendered by domElementWithChildrenCheckbox, whose result
  does not depend on the name of the element: it writes no name attribute.
\<close>

theorem empty_field_name:
  "tagNameFromStructField [] p = Inr []
   \<and> newElement tg lbl [] (Ptr fs) attrs =
       Inr \<lparr>TagName = tg, Attrs = attrs, Name = [], label = lbl,
            data = ''<invalid Value>'', viewBuf = []\<rparr>
   \<and> domElementWithChildrenCheckbox (e\<lparr>Name := n\<rparr>) children =
       domElementWithChildrenCheckbox e children"
  by (simp add: tagNameFromStructField_def newElement_def valueFromStructField_def
      Value_FieldByName_def FieldByName_empty domElementWithChildrenCheckbox_def
      domElementWithChildrenCheckbox_in_def)

text \<open>
  Claim C10 as stated fails in its last part: the markup that Checkbox returns for a
  struct with the field, with no attributes and no options, is the wrapper alone, and it
  holds no \<open>name=""\<close>, nor any name attribute.
\<close>

theorem checkbox_wrapper_counterexample:
  \<open>Checkbox ''Cats''
     (Ptr [\<lparr>FieldName = ''Cats'', PkgPath = [], Tag = [(''json'', ''cats'')],
            Val = VStrings ''[]string'' [''a'']\<rparr>])
     (GoMap []) (GoMap []) =
     {Inr (''<div class="input-field col s12"  ></div><div class="clear padding">&nbsp;</div>'',
           GoMap [(''class'', ''input-field col s12'')])}
   \<and> \<not> sublist ''name=""''
         ''<div class="input-field col s12"  ></div><div class="clear padding">&nbsp;</div>''
   \<and> \<not> sublist ''name=''
         ''<div class="input-field col s12"  ></div><div class="clear padding">&nbsp;</div>''\<close>
  by (simp add: Checkbox_def newElement_def tagNameFromStructField_def valueFromStructField_def
      Value_FieldByName_def FieldByName_def domElementWithChildrenCheckbox_def
      domElementWithChildrenCheckbox_in_def range_orders_def attr_writes_def index_def
      sublist_Cons_right)

end
